theory Spec2Isabelle
  imports Main "HOL-Library.Sublist"
begin

section \<open>The cache synchronisation subsystem (pipeline\_runner/cache.py)\<close>

text \<open>
  The module moves cache archives between the local filesystem and the execution
  container. Its collaborators (the container runner, the docker client, the local
  filesystem, the configuration and the logger) are made explicit: every call to one of
  them is an event of a trace, the local filesystem is a map from paths to nodes, and an
  exception is the left injection of the result.
\<close>

subsection \<open>Values, exceptions and events\<close>

text \<open>
  The container returns command output as bytes, and the source calls \<open>output.decode()\<close>
  on it, which raises on bytes that are not UTF-8. The two cases are the two constructors:
  \<open>Utf8 s\<close> carries the decoded text.
\<close>

datatype bytes = Utf8 string | NotUtf8 string

datatype exn =
    Exception string
  | KeyError string
  | IndexError
  | UnicodeDecodeError
  | IsADirectoryError string
  | FileNotFoundError string
  | NotADirectoryError string
  | OSError string
  | ValueError string
  | Raised string

datatype node = File string | Dir

datatype level = DEBUG | INFO | ERROR

text \<open>
  A log record is the format string of the source with its arguments. Elapsed times are
  real-time measurements and the human-readable size comes from \<open>utils\<close>; both are kept
  symbolic.
\<close>

datatype log_arg = Str string | HumanSize nat | Count nat | Elapsed

datatype event =
    Log level string "log_arg list"
  | RunCommand string
  | PutArchive string string
  | PathExists string
  | GetArchive string
  | ImagesList
  | ImagesLoad string
  | ImageSave string
  | TempCreate string
  | FileWrite string string
  | Unlink string
  | Rename string string
  | MakeDirs string

fun is_remote_call :: "event \<Rightarrow> bool" where
  "is_remote_call (RunCommand c) = True"
| "is_remote_call (PutArchive d a) = True"
| "is_remote_call (PathExists p) = True"
| "is_remote_call (GetArchive p) = True"
| "is_remote_call (ImagesList) = True"
| "is_remote_call (ImagesLoad a) = True"
| "is_remote_call (ImageSave i) = True"
| "is_remote_call (Log l f as) = False"
| "is_remote_call (TempCreate p) = False"
| "is_remote_call (FileWrite p c) = False"
| "is_remote_call (Unlink p) = False"
| "is_remote_call (Rename p q) = False"
| "is_remote_call (MakeDirs p) = False"

fun is_local_write :: "event \<Rightarrow> bool" where
  "is_local_write (TempCreate p) = True"
| "is_local_write (FileWrite p c) = True"
| "is_local_write (Unlink p) = True"
| "is_local_write (Rename p q) = True"
| "is_local_write (MakeDirs p) = True"
| "is_local_write (RunCommand c) = False"
| "is_local_write (PutArchive d a) = False"
| "is_local_write (PathExists p) = False"
| "is_local_write (GetArchive p) = False"
| "is_local_write (ImagesList) = False"
| "is_local_write (ImagesLoad a) = False"
| "is_local_write (ImageSave i) = False"
| "is_local_write (Log l f as) = False"

text \<open>
  A chunk stream, as \<open>get_archive\<close> and \<open>image.save\<close> return it: the chunks it yields,
  and the exception that ends the iteration if there is one.
\<close>

record chunk_stream =
  chunks :: "string list"
  failure :: "exn option"

text \<open>A \<open>models.Cache\<close>: only its \<open>path\<close> is read here.\<close>

record cache =
  cache_path :: string

text \<open>A \<open>docker.models.images.Image\<close>: its tags, its short id and what \<open>save\<close> streams.\<close>

record image =
  tags :: "string list"
  short_id :: string
  image_repr :: string
  save_stream :: chunk_stream

subsection \<open>The world and the collaborators\<close>

text \<open>
  A file object open for writing, as \<open>NamedTemporaryFile\<close> returns it: the path at which
  its file is linked at the moment (none once the file is unlinked; a rename moves it),
  and the bytes written to the object that are still in its buffer.
\<close>

record open_file =
  linked_at :: "string option"
  file_buffer :: string

text \<open>
  The world a strategy runs in: the local filesystem, the state of the container and of
  the container runtime (of any type \<open>'c\<close>), the trace of events so far, and the file
  objects that are open, by their \<open>name\<close>.
\<close>

record 'c world =
  fs :: "string \<rightharpoonup> node"
  cont :: 'c
  trace :: "event list"
  open_files :: "string \<rightharpoonup> open_file"

text \<open>
  \<open>ContainerRunner\<close> is not part of this module: its four methods are parameters. Each
  reads and updates the container's state. \<open>get_archive\<close> may raise.
\<close>

record 'c container =
  run_command :: "string \<Rightarrow> 'c \<Rightarrow> (int \<times> bytes) \<times> 'c"
  put_archive :: "string \<Rightarrow> string \<Rightarrow> 'c \<Rightarrow> bool \<times> 'c"
  path_exists :: "string \<Rightarrow> 'c \<Rightarrow> bool \<times> 'c"
  get_archive :: "string \<Rightarrow> 'c \<Rightarrow> (exn + chunk_stream) \<times> 'c"

text \<open>
  What the module reads from its surroundings: \<open>utils.get_local_cache_directory()\<close>,
  \<open>config.caches_dir\<close>, the name \<open>NamedTemporaryFile\<close> picks in a directory of the current
  filesystem, the order in which \<open>os.listdir\<close> lists a directory, \<open>slugify\<close>, and the
  docker client's image store. Two more belong to the platform: the size of the buffer
  of a file object (\<open>io.DEFAULT_BUFFER_SIZE\<close>), and how many of the bytes handed to the
  operating system in one write it takes in a given state of the filesystem; when it
  takes fewer than all, the write fails with \<open>OSError\<close> after them (a full disk).
\<close>

record 'c ambient =
  local_cache_directory :: string
  caches_dir :: string
  temp_name :: "string \<Rightarrow> (string \<rightharpoonup> node) \<Rightarrow> string"
  listdir :: "string \<Rightarrow> (string \<rightharpoonup> node) \<Rightarrow> string list"
  slugify :: "string \<Rightarrow> string"
  images_list :: "'c \<Rightarrow> (exn + image list) \<times> 'c"
  images_load :: "string \<Rightarrow> 'c \<Rightarrow> (exn + unit) \<times> 'c"
  buffer_size :: nat
  os_write :: "(string \<rightharpoonup> node) \<Rightarrow> string \<Rightarrow> nat"

subsection \<open>Sequencing with exceptions\<close>

type_synonym ('c, 'a) prog = "'c world \<Rightarrow> (exn + 'a) \<times> 'c world"

definition ret :: "'a \<Rightarrow> ('c, 'a) prog" where
  "ret x = (\<lambda>w. (Inr x, w))"

definition raise :: "exn \<Rightarrow> ('c, 'a) prog" where
  "raise e = (\<lambda>w. (Inl e, w))"

definition bnd :: "('c, 'a) prog \<Rightarrow> ('a \<Rightarrow> ('c, 'b) prog) \<Rightarrow> ('c, 'b) prog" where
  "bnd m f = (\<lambda>w. case m w of (Inl e, w') \<Rightarrow> (Inl e, w') | (Inr x, w') \<Rightarrow> f x w')"

text \<open>\<open>try: m except Exception as e: h e\<close>\<close>

definition try_except :: "('c, 'a) prog \<Rightarrow> (exn \<Rightarrow> ('c, 'a) prog) \<Rightarrow> ('c, 'a) prog" where
  "try_except m h = (\<lambda>w. case m w of (Inl e, w') \<Rightarrow> h e w' | (Inr x, w') \<Rightarrow> (Inr x, w'))"

definition emit :: "event \<Rightarrow> ('c, unit) prog" where
  "emit ev = (\<lambda>w. (Inr (), w\<lparr>trace := trace w @ [ev]\<rparr>))"

definition logger :: "level \<Rightarrow> string \<Rightarrow> log_arg list \<Rightarrow> ('c, unit) prog" where
  "logger l fmt as = emit (Log l fmt as)"

definition decode :: "bytes \<Rightarrow> ('c, string) prog" where
  "decode b = (case b of Utf8 s \<Rightarrow> ret s | NotUtf8 x \<Rightarrow> raise UnicodeDecodeError)"

text \<open>\<open>str(e)\<close> of an exception, as the f-strings of the source format it.\<close>

fun exn_str :: "exn \<Rightarrow> string" where
  "exn_str (Exception m) = m"
| "exn_str (KeyError k) = [CHR 0x27] @ k @ [CHR 0x27]"
| "exn_str IndexError = ''list index out of range''"
| "exn_str UnicodeDecodeError = ''invalid start byte''"
| "exn_str (IsADirectoryError p) = p"
| "exn_str (FileNotFoundError p) = p"
| "exn_str (NotADirectoryError p) = p"
| "exn_str (OSError m) = m"
| "exn_str (ValueError m) = m"
| "exn_str (Raised m) = m"

subsection \<open>Calls to the container\<close>

definition call_run_command :: "'c container \<Rightarrow> string \<Rightarrow> ('c, int \<times> bytes) prog" where
  "call_run_command c cmd = (\<lambda>w.
     let (r, s) = run_command c cmd (cont w)
     in (Inr r, w\<lparr>cont := s, trace := trace w @ [RunCommand cmd]\<rparr>))"

definition call_put_archive :: "'c container \<Rightarrow> string \<Rightarrow> string \<Rightarrow> ('c, bool) prog" where
  "call_put_archive c dir data = (\<lambda>w.
     let (r, s) = put_archive c dir data (cont w)
     in (Inr r, w\<lparr>cont := s, trace := trace w @ [PutArchive dir data]\<rparr>))"

definition call_path_exists :: "'c container \<Rightarrow> string \<Rightarrow> ('c, bool) prog" where
  "call_path_exists c p = (\<lambda>w.
     let (r, s) = path_exists c p (cont w)
     in (Inr r, w\<lparr>cont := s, trace := trace w @ [PathExists p]\<rparr>))"

definition call_get_archive :: "'c container \<Rightarrow> string \<Rightarrow> ('c, chunk_stream) prog" where
  "call_get_archive c p = (\<lambda>w.
     let (r, s) = get_archive c p (cont w)
     in (r, w\<lparr>cont := s, trace := trace w @ [GetArchive p]\<rparr>))"

subsection \<open>Paths\<close>

text \<open>\<open>posixpath.join\<close> of two components.\<close>

definition os_path_join :: "string \<Rightarrow> string \<Rightarrow> string" where
  "os_path_join a b =
     (if b \<noteq> [] \<and> hd b = CHR ''/'' then b
      else if a = [] \<or> last a = CHR ''/'' then a @ b
      else a @ ''/'' @ b)"

text \<open>
  \<open>posixpath.dirname\<close>: the path up to its last slash, without the trailing slashes
  unless it consists of slashes only.
\<close>

definition os_path_dirname :: "string \<Rightarrow> string" where
  "os_path_dirname p =
     (let h = rev (dropWhile (\<lambda>c. c \<noteq> CHR ''/'') (rev p))
      in if h \<noteq> [] \<and> \<not> list_all (\<lambda>c. c = CHR ''/'') h
         then rev (dropWhile (\<lambda>c. c = CHR ''/'') (rev h))
         else h)"

definition get_local_cache_archive_path :: "'c ambient \<Rightarrow> string \<Rightarrow> string" where
  "get_local_cache_archive_path amb cache_name =
     os_path_join (local_cache_directory amb) (cache_name @ ''.tar'')"

definition get_remote_temp_directory :: "'c ambient \<Rightarrow> string \<Rightarrow> string" where
  "get_remote_temp_directory amb cache_name = os_path_join (caches_dir amb) cache_name"

definition sanitize_remote_path :: "string \<Rightarrow> string" where
  "sanitize_remote_path p =
     (if p \<noteq> [] \<and> hd p = CHR ''~'' then ''$HOME'' @ tl p else p)"

text \<open>\<open>self._cache_definitions[self._cache_name]\<close>\<close>

definition lookup_definition :: "(string \<rightharpoonup> cache) \<Rightarrow> string \<Rightarrow> ('c, cache) prog" where
  "lookup_definition defs k = (case defs k of None \<Rightarrow> raise (KeyError k) | Some c \<Rightarrow> ret c)"

subsection \<open>The local filesystem\<close>

definition os_path_exists :: "string \<Rightarrow> 'c world \<Rightarrow> bool" where
  "os_path_exists p w = (fs w p \<noteq> None)"

text \<open>\<open>os.path.getsize\<close>; the size of a directory entry depends on the system.\<close>

definition os_path_getsize :: "string \<Rightarrow> ('c, nat) prog" where
  "os_path_getsize p = (\<lambda>w. case fs w p of
       None \<Rightarrow> (Inl (FileNotFoundError p), w)
     | Some (File s) \<Rightarrow> (Inr (length s), w)
     | Some Dir \<Rightarrow> (Inr 0, w))"

text \<open>\<open>open(p, "rb")\<close> and what the reader reads from it.\<close>

definition open_rb :: "string \<Rightarrow> ('c, string) prog" where
  "open_rb p = (\<lambda>w. case fs w p of
       None \<Rightarrow> (Inl (FileNotFoundError p), w)
     | Some (File s) \<Rightarrow> (Inr s, w)
     | Some Dir \<Rightarrow> (Inl (IsADirectoryError p), w))"

text \<open>The bytes of the file at a path.\<close>

definition file_content :: "(string \<rightharpoonup> node) \<Rightarrow> string \<Rightarrow> string" where
  "file_content F p = (case F p of Some (File s) \<Rightarrow> s | _ \<Rightarrow> [])"

text \<open>
  \<open>NamedTemporaryFile(dir=d, delete=False)\<close>: a new, empty file and a file object open on
  it, with an empty buffer; returns \<open>f.name\<close>.
\<close>

definition named_temporary_file :: "'c ambient \<Rightarrow> string \<Rightarrow> ('c, string) prog" where
  "named_temporary_file amb d = (\<lambda>w.
     let t = temp_name amb d (fs w)
     in (Inr t, w\<lparr>fs := (fs w)(t \<mapsto> File []),
                  trace := trace w @ [TempCreate t],
                  open_files := (open_files w)(t \<mapsto> \<lparr>linked_at = Some t, file_buffer = []\<rparr>)\<rparr>))"

text \<open>
  One write of the operating system to the file of an open file object: the bytes it
  takes are appended to the file where it is linked now (they are lost to the namespace
  when the file is unlinked). Returns how many bytes were taken.
\<close>

definition raw_write :: "'c ambient \<Rightarrow> string \<Rightarrow> string \<Rightarrow> 'c world \<Rightarrow> nat \<times> 'c world" where
  "raw_write amb name data w =
     (let k = min (os_write amb (fs w) data) (length data)
      in (k, case open_files w name of
               None \<Rightarrow> w
             | Some h \<Rightarrow>
                 (case linked_at h of
                    None \<Rightarrow> w
                  | Some p \<Rightarrow> w\<lparr>fs := (fs w)(p \<mapsto> File (file_content (fs w) p @ take k data))\<rparr>)))"

text \<open>
  The flush of a buffered writer: the buffer goes to the operating system; what it does
  not take stays in the buffer and the flush raises.
\<close>

definition flush_buffer :: "'c ambient \<Rightarrow> string \<Rightarrow> ('c, unit) prog" where
  "flush_buffer amb name = (\<lambda>w.
     case open_files w name of
       None \<Rightarrow> (Inl (ValueError ''flush of closed file''), w)
     | Some h \<Rightarrow>
         (let (k, w1) = raw_write amb name (file_buffer h) w;
              w2 = w1\<lparr>open_files := (open_files w1)(name \<mapsto> h\<lparr>file_buffer := drop k (file_buffer h)\<rparr>)\<rparr>
          in if k < length (file_buffer h)
             then (Inl (OSError ''No space left on device''), w2)
             else (Inr (), w2)))"

text \<open>
  \<open>f.write(chunk)\<close> on the buffered writer, after \<open>BufferedWriter.write\<close> of CPython: a
  chunk that fits in the free part of the buffer is only copied there. Otherwise the
  buffer is flushed first, and then a chunk longer than the buffer goes to the operating
  system at once, and a shorter one into the emptied buffer.
\<close>

definition file_write :: "'c ambient \<Rightarrow> string \<Rightarrow> string \<Rightarrow> ('c, unit) prog" where
  "file_write amb name chunk =
     bnd (emit (FileWrite name chunk)) (\<lambda>_ w.
     case open_files w name of
       None \<Rightarrow> (Inl (ValueError ''write to closed file''), w)
     | Some h \<Rightarrow>
         if length (file_buffer h) + length chunk \<le> buffer_size amb
         then (Inr (), w\<lparr>open_files := (open_files w)(name \<mapsto>
                            h\<lparr>file_buffer := file_buffer h @ chunk\<rparr>)\<rparr>)
         else
           bnd (flush_buffer amb name) (\<lambda>_ w1.
             if buffer_size amb < length chunk
             then (let (k, w2) = raw_write amb name chunk w1
                   in if k < length chunk
                      then (Inl (OSError ''No space left on device''), w2)
                      else (Inr (), w2))
             else (Inr (), w1\<lparr>open_files := (open_files w1)(name \<mapsto>
                                  h\<lparr>file_buffer := chunk\<rparr>)\<rparr>)) w)"

text \<open>
  \<open>f.close()\<close>, which the end of a \<open>with\<close> block calls: the buffer is flushed and the
  file object is closed, also when the flush raises.
\<close>

definition file_close :: "'c ambient \<Rightarrow> string \<Rightarrow> ('c, unit) prog" where
  "file_close amb name = (\<lambda>w.
     case flush_buffer amb name w of
       (r, w1) \<Rightarrow> (r, w1\<lparr>open_files := (open_files w1)(name := None)\<rparr>))"

text \<open>
  \<open>with ... as f: body\<close>: the exit runs whether the body returned or raised; an
  exception of the exit is the one that propagates, otherwise the outcome is the body's.
\<close>

definition with_exit :: "('c, 'a) prog \<Rightarrow> ('c, unit) prog \<Rightarrow> ('c, 'a) prog" where
  "with_exit body exit' = (\<lambda>w.
     case body w of
       (r, w1) \<Rightarrow> (case exit' w1 of (Inl e, w2) \<Rightarrow> (Inl e, w2) | (Inr u, w2) \<Rightarrow> (r, w2)))"

text \<open>The open file objects after a path is unlinked, and after a rename.\<close>

definition unlink_handles :: "string \<Rightarrow> (string \<rightharpoonup> open_file) \<Rightarrow> (string \<rightharpoonup> open_file)" where
  "unlink_handles p files =
     (\<lambda>k. map_option (\<lambda>h. if linked_at h = Some p then h\<lparr>linked_at := None\<rparr> else h) (files k))"

definition rename_handles ::
  "string \<Rightarrow> string \<Rightarrow> (string \<rightharpoonup> open_file) \<Rightarrow> (string \<rightharpoonup> open_file)" where
  "rename_handles src dst files =
     (\<lambda>k. map_option
        (\<lambda>h. if linked_at h = Some src then h\<lparr>linked_at := Some dst\<rparr>
             else if linked_at h = Some dst then h\<lparr>linked_at := None\<rparr>
             else h) (files k))"

definition os_unlink :: "string \<Rightarrow> ('c, unit) prog" where
  "os_unlink p = (\<lambda>w. case fs w p of
       None \<Rightarrow> (Inl (FileNotFoundError p), w\<lparr>trace := trace w @ [Unlink p]\<rparr>)
     | Some Dir \<Rightarrow> (Inl (IsADirectoryError p), w\<lparr>trace := trace w @ [Unlink p]\<rparr>)
     | Some (File s) \<Rightarrow>
         (Inr (), w\<lparr>fs := (fs w)(p := None), trace := trace w @ [Unlink p],
                     open_files := unlink_handles p (open_files w)\<rparr>))"

text \<open>The empty path (the current directory), the root and the directories of the map.\<close>

definition is_directory :: "(string \<rightharpoonup> node) \<Rightarrow> string \<Rightarrow> bool" where
  "is_directory F p = (p = [] \<or> list_all (\<lambda>c. c = CHR ''/'') p \<or> F p = Some Dir)"

text \<open>
  \<open>os.rename\<close> of a file: the source must exist and the parent of the destination be a
  directory; it replaces a file at the destination, and fails on a directory there.
\<close>

definition os_rename :: "string \<Rightarrow> string \<Rightarrow> ('c, unit) prog" where
  "os_rename src dst = (\<lambda>w. case fs w src of
       None \<Rightarrow> (Inl (FileNotFoundError src), w\<lparr>trace := trace w @ [Rename src dst]\<rparr>)
     | Some n \<Rightarrow>
         (if \<not> is_directory (fs w) (os_path_dirname dst)
          then (Inl (case fs w (os_path_dirname dst) of
                       None \<Rightarrow> FileNotFoundError dst
                     | Some x \<Rightarrow> NotADirectoryError dst),
                w\<lparr>trace := trace w @ [Rename src dst]\<rparr>)
          else if fs w dst = Some Dir
          then (Inl (IsADirectoryError dst), w\<lparr>trace := trace w @ [Rename src dst]\<rparr>)
          else (Inr (), w\<lparr>fs := ((fs w)(src := None))(dst \<mapsto> n),
                          trace := trace w @ [Rename src dst],
                          open_files := rename_handles src dst (open_files w)\<rparr>)))"

definition os_makedirs :: "string \<Rightarrow> ('c, unit) prog" where
  "os_makedirs p = (\<lambda>w. (Inr (), w\<lparr>fs := (fs w)(p \<mapsto> Dir), trace := trace w @ [MakeDirs p]\<rparr>))"

subsection \<open>Strategies\<close>

text \<open>What every strategy object holds (the three fields set by \<open>__init__\<close>).\<close>

record 'c strategy =
  container_of :: "'c container"
  cache_name :: string
  cache_definitions :: "string \<rightharpoonup> cache"

datatype restore_class = CacheRestore | DockerCacheRestore | NullCacheRestore

datatype save_class = CacheSave | DockerCacheSave | NullCacheSave

subsection \<open>CacheRestore\<close>

definition CacheRestore_get_local_cache_file ::
  "'c ambient \<Rightarrow> 'c strategy \<Rightarrow> 'c world \<Rightarrow> string option" where
  "CacheRestore_get_local_cache_file amb self w =
     (let local_cache_archive_path = get_local_cache_archive_path amb (cache_name self)
      in if \<not> os_path_exists local_cache_archive_path w then None
         else Some local_cache_archive_path)"

definition prepare_cache_dir_cmd :: "string \<Rightarrow> string \<Rightarrow> string" where
  \<open>prepare_cache_dir_cmd remote_cache_directory remote_cache_parent_directory =
     ''[ -d "'' @ remote_cache_directory @ ''" ] && rm -rf "'' @ remote_cache_directory @ ''"; ''
     @ ''mkdir -p "'' @ remote_cache_parent_directory @ ''"''\<close>

definition CacheRestore_upload_cache ::
  "'c ambient \<Rightarrow> 'c strategy \<Rightarrow> string \<Rightarrow> ('c, unit) prog" where
  "CacheRestore_upload_cache amb self cache_file =
     (let remote_cache_directory = get_remote_temp_directory amb (cache_name self);
          remote_cache_parent_directory = os_path_dirname remote_cache_directory
      in
      bnd (os_path_getsize cache_file) (\<lambda>cache_archive_size.
      bnd (logger INFO ''Cache '%s': Uploading'' [Str (cache_name self)]) (\<lambda>_.
      bnd (call_run_command (container_of self)
             (prepare_cache_dir_cmd remote_cache_directory remote_cache_parent_directory))
        (\<lambda>(res, output).
      bnd (if res \<noteq> 0
           then bnd (decode output) (\<lambda>out.
                bnd (logger ERROR ''Remote command failed: %s'' [Str out]) (\<lambda>_.
                raise (Exception (''Error uploading cache: '' @ cache_name self))))
           else ret ()) (\<lambda>_.
      bnd (open_rb cache_file) (\<lambda>f.
      bnd (call_put_archive (container_of self) remote_cache_parent_directory f) (\<lambda>success.
      bnd (if \<not> success
           then raise (Exception (''Error uploading cache: '' @ cache_name self))
           else ret ()) (\<lambda>_.
      logger INFO ''Cache '%s': Uploaded %s in %.3fs''
        [Str (cache_name self), HumanSize cache_archive_size, Elapsed]))))))))"

definition restore_cache_script :: "string \<Rightarrow> string \<Rightarrow> string" where
  \<open>restore_cache_script target_dir temp_dir =
     ''if [ -e "'' @ target_dir @ ''" ]; then rm -rf "'' @ target_dir @ ''"; fi'' @ [CHR 0x0A]
     @ ''mkdir -p "$(dirname "'' @ target_dir @ ''")"'' @ [CHR 0x0A]
     @ ''mv "'' @ temp_dir @ ''" "'' @ target_dir @ ''"''\<close>

definition CacheRestore_restore_cache :: "'c ambient \<Rightarrow> 'c strategy \<Rightarrow> ('c, unit) prog" where
  "CacheRestore_restore_cache amb self =
     (let temp_dir = get_remote_temp_directory amb (cache_name self)
      in
      bnd (lookup_definition (cache_definitions self) (cache_name self)) (\<lambda>d.
      let target_dir = sanitize_remote_path (cache_path d)
      in
      bnd (logger INFO ''Cache '%s': Restoring'' [Str (cache_name self)]) (\<lambda>_.
      bnd (call_run_command (container_of self) (restore_cache_script target_dir temp_dir))
        (\<lambda>(exit_code, output).
      bnd (if exit_code \<noteq> 0
           then bnd (decode output) (\<lambda>out.
                raise (Exception (''Error restoring cache: '' @ cache_name self @ '': '' @ out)))
           else ret ()) (\<lambda>_.
      logger INFO ''Cache '%s': Restored in %.3fs'' [Str (cache_name self), Elapsed])))))"

text \<open>\<open>if not cache_file\<close> holds for \<open>None\<close> and for the empty string.\<close>

definition CacheRestore_restore :: "'c ambient \<Rightarrow> 'c strategy \<Rightarrow> ('c, unit) prog" where
  "CacheRestore_restore amb self = (\<lambda>w.
     (case CacheRestore_get_local_cache_file amb self w of
        None \<Rightarrow> logger INFO ''Cache '%s': Not found: Skipping'' [Str (cache_name self)]
      | Some cache_file \<Rightarrow>
          if cache_file = []
          then logger INFO ''Cache '%s': Not found: Skipping'' [Str (cache_name self)]
          else bnd (CacheRestore_upload_cache amb self cache_file) (\<lambda>_.
               CacheRestore_restore_cache amb self)) w)"

subsection \<open>DockerCacheRestore and NullCacheRestore\<close>

definition call_images_load :: "'c ambient \<Rightarrow> string \<Rightarrow> ('c, unit) prog" where
  "call_images_load amb data = (\<lambda>w.
     let (r, s) = images_load amb data (cont w)
     in (r, w\<lparr>cont := s, trace := trace w @ [ImagesLoad data]\<rparr>))"

definition DockerCacheRestore_restore_image :: "'c ambient \<Rightarrow> string \<Rightarrow> ('c, unit) prog" where
  "DockerCacheRestore_restore_image amb img_path =
     bnd (logger DEBUG (''Restoring docker image archive ''
            @ [CHR 0x27] @ img_path @ [CHR 0x27]) []) (\<lambda>_.
     bnd (open_rb img_path) (\<lambda>f.
     call_images_load amb f))"

fun restore_images :: "'c ambient \<Rightarrow> string \<Rightarrow> string list \<Rightarrow> ('c, unit) prog" where
  "restore_images amb cache_dir [] = ret ()"
| "restore_images amb cache_dir (img # imgs) =
     bnd (DockerCacheRestore_restore_image amb (os_path_join cache_dir img)) (\<lambda>_.
     restore_images amb cache_dir imgs)"

text \<open>\<open>os.listdir\<close> of a path: its entries for a directory, an error otherwise.\<close>

definition os_listdir :: "'c ambient \<Rightarrow> string \<Rightarrow> ('c, string list) prog" where
  "os_listdir amb p = (\<lambda>w. case fs w p of
       None \<Rightarrow> (Inl (FileNotFoundError p), w)
     | Some (File s) \<Rightarrow> (Inl (NotADirectoryError p), w)
     | Some Dir \<Rightarrow> (Inr (listdir amb p (fs w)), w))"

definition DockerCacheRestore_restore :: "'c ambient \<Rightarrow> 'c strategy \<Rightarrow> ('c, unit) prog" where
  "DockerCacheRestore_restore amb self = (\<lambda>w.
     (let cache_dir = os_path_join (local_cache_directory amb) ''docker''
      in
      bnd (if \<not> os_path_exists cache_dir w then ret True
           else bnd (os_listdir amb cache_dir) (\<lambda>l. ret (l = []))) (\<lambda>missing.
      if missing
      then logger INFO ''Cache '%s': Not found: Skipping'' [Str (cache_name self)]
      else
        bnd (logger INFO ''Cache '%s': Restoring'' [Str (cache_name self)]) (\<lambda>_.
        bnd (os_listdir amb cache_dir) (\<lambda>images.
        bnd (restore_images amb cache_dir images) (\<lambda>_.
        logger INFO ''Cache '%s': Restored %d image%s in %.3fs''
          [Str (cache_name self), Count (length images),
           Str (if length images \<noteq> 1 then ''s'' else []), Elapsed]))))) w)"

definition NullCacheRestore_restore :: "'c ambient \<Rightarrow> 'c strategy \<Rightarrow> ('c, unit) prog" where
  "NullCacheRestore_restore amb self = logger INFO ''Cache '%s': Ignoring'' [Str (cache_name self)]"

text \<open>A restore object is its class and its fields; \<open>restore\<close> dispatches on the class.\<close>

fun restore :: "'c ambient \<Rightarrow> restore_class \<times> 'c strategy \<Rightarrow> ('c, unit) prog" where
  "restore amb (CacheRestore, self) = CacheRestore_restore amb self"
| "restore amb (DockerCacheRestore, self) = DockerCacheRestore_restore amb self"
| "restore amb (NullCacheRestore, self) = NullCacheRestore_restore amb self"

definition CacheRestoreFactory_get ::
  "'c container \<Rightarrow> string \<Rightarrow> (string \<rightharpoonup> cache) \<Rightarrow> restore_class \<times> 'c strategy" where
  "CacheRestoreFactory_get container cache_name' cache_definitions' =
     (let cls = (if cache_name' = ''docker'' then NullCacheRestore else CacheRestore)
      in (cls, \<lparr>container_of = container, cache_name = cache_name',
                cache_definitions = cache_definitions'\<rparr>))"

subsection \<open>CacheSave\<close>

definition prepare_cache_cmd :: "string \<Rightarrow> string \<Rightarrow> string" where
  \<open>prepare_cache_cmd remote_dir target_dir =
     ''if [ -e "'' @ remote_dir @ ''" ]; then mv "'' @ remote_dir @ ''" "'' @ target_dir @ ''"; fi''\<close>

definition CacheSave_prepare :: "'c ambient \<Rightarrow> 'c strategy \<Rightarrow> ('c, string) prog" where
  "CacheSave_prepare amb self =
     bnd (lookup_definition (cache_definitions self) (cache_name self)) (\<lambda>d.
     let remote_dir = sanitize_remote_path (cache_path d);
         target_dir = get_remote_temp_directory amb (cache_name self)
     in
     bnd (logger INFO ''Cache '%s': Preparing'' [Str (cache_name self)]) (\<lambda>_.
     bnd (call_run_command (container_of self) (prepare_cache_cmd remote_dir target_dir))
       (\<lambda>(exit_code, output).
     bnd (if exit_code \<noteq> 0
          then bnd (decode output) (\<lambda>out.
               raise (Exception (''Error preparing cache: '' @ cache_name self @ '': '' @ out)))
          else ret ()) (\<lambda>_.
     bnd (logger INFO ''Cache '%s': Prepared in %.3fs'' [Str (cache_name self), Elapsed]) (\<lambda>_.
     ret target_dir)))))"

text \<open>
  The loop \<open>for chunk in data: size += len(chunk); f.write(chunk)\<close>, and the exception
  that ends the iteration if the stream has one.
\<close>

fun write_chunks :: "'c ambient \<Rightarrow> string \<Rightarrow> nat \<Rightarrow> string list \<Rightarrow> ('c, nat) prog" where
  "write_chunks amb f size' [] = ret size'"
| "write_chunks amb f size' (chunk # rest) =
     bnd (file_write amb f chunk) (\<lambda>_. write_chunks amb f (size' + length chunk) rest)"

definition consume :: "'c ambient \<Rightarrow> string \<Rightarrow> chunk_stream \<Rightarrow> ('c, nat) prog" where
  "consume amb f data =
     bnd (write_chunks amb f 0 (chunks data)) (\<lambda>size'.
     case failure data of None \<Rightarrow> ret size' | Some e \<Rightarrow> raise e)"

text \<open>
  The body of the \<open>with\<close> block of \<open>_download\<close>, for the file object \<open>f\<close>. The \<open>try\<close>
  body yields the size, the \<open>except\<close> branch unlinks the file and returns from the method
  (\<open>None\<close>), and the \<open>else\<close> branch, outside the handler, renames the file. The file
  object is still open when the body ends.
\<close>

definition CacheSave_download_body ::
  "'c ambient \<Rightarrow> 'c strategy \<Rightarrow> string \<Rightarrow> string \<Rightarrow> string \<Rightarrow> ('c, nat option) prog" where
  "CacheSave_download_body amb self src dst f =
     bnd (try_except
            (bnd (logger DEBUG (''Downloading cache folder '' @ [CHR 0x27] @ src @ [CHR 0x27]
                    @ '' to '' @ [CHR 0x27] @ f @ [CHR 0x27]) []) (\<lambda>_.
             bnd (call_get_archive (container_of self) src) (\<lambda>data.
             bnd (consume amb f data) (\<lambda>size'.
             ret (Some size')))))
            (\<lambda>e.
             bnd (logger ERROR (''Error getting cache from container: '' @ cache_name self
                    @ '': '' @ exn_str e) []) (\<lambda>_.
             bnd (os_unlink f) (\<lambda>_.
             ret None)))) (\<lambda>r.
     case r of
       None \<Rightarrow> ret None
     | Some size' \<Rightarrow>
         bnd (logger DEBUG (''Moving temp cache archive '' @ f @ '' to '' @ dst) []) (\<lambda>_.
         bnd (os_rename f dst) (\<lambda>_.
         ret (Some size'))))"

text \<open>
  \<open>_download\<close>: the file object is closed when the \<open>with\<close> block is left, after the
  body has unlinked or renamed the file; the last log follows the block.
\<close>

definition CacheSave_download ::
  "'c ambient \<Rightarrow> 'c strategy \<Rightarrow> string \<Rightarrow> string \<Rightarrow> ('c, unit) prog" where
  "CacheSave_download amb self src dst =
     bnd (call_path_exists (container_of self) src) (\<lambda>found.
     if \<not> found then logger INFO ''Cache '%s': Not found'' [Str (cache_name self)]
     else
       bnd (logger INFO ''Cache '%s': Downloading'' [Str (cache_name self)]) (\<lambda>_.
       bnd (named_temporary_file amb (local_cache_directory amb)) (\<lambda>f.
       bnd (with_exit (CacheSave_download_body amb self src dst f) (file_close amb f)) (\<lambda>r.
       case r of
         None \<Rightarrow> ret ()
       | Some size' \<Rightarrow>
           logger INFO ''Cache '%s': Downloaded %s in %.3fs''
             [Str (cache_name self), HumanSize size', Elapsed]))))"

definition CacheSave_save :: "'c ambient \<Rightarrow> 'c strategy \<Rightarrow> ('c, unit) prog" where
  "CacheSave_save amb self =
     bnd (CacheSave_prepare amb self) (\<lambda>remote_cache_directory.
     let local_cache_archive_path = get_local_cache_archive_path amb (cache_name self)
     in CacheSave_download amb self remote_cache_directory local_cache_archive_path)"

subsection \<open>DockerCacheSave and NullCacheSave\<close>

definition call_images_list :: "'c ambient \<Rightarrow> ('c, image list) prog" where
  "call_images_list amb = (\<lambda>w.
     let (r, s) = images_list amb (cont w)
     in (r, w\<lparr>cont := s, trace := trace w @ [ImagesList]\<rparr>))"

text \<open>\<open>image.save(named=True)\<close>: the call, then the stream it returns.\<close>

definition call_image_save :: "image \<Rightarrow> ('c, chunk_stream) prog" where
  "call_image_save img = bnd (emit (ImageSave (image_repr img))) (\<lambda>_. ret (save_stream img))"

text \<open>
  The body of the \<open>with\<close> block of \<open>_save_image\<close>, for the file object \<open>f\<close>: whether the
  stream was written, with the unlink of the \<open>except\<close> branch and the rename of the
  \<open>else\<close> branch.
\<close>

definition DockerCacheSave_save_image_body ::
  "'c ambient \<Rightarrow> image \<Rightarrow> string \<Rightarrow> string \<Rightarrow> ('c, unit) prog" where
  "DockerCacheSave_save_image_body amb img dst f =
     bnd (try_except
            (bnd (logger DEBUG (''Saving docker image '' @ [CHR 0x27] @ image_repr img
                    @ [CHR 0x27] @ '' to '' @ [CHR 0x27] @ f @ [CHR 0x27]) []) (\<lambda>_.
             bnd (call_image_save img) (\<lambda>data.
             bnd (consume amb f data) (\<lambda>size'.
             ret True))))
            (\<lambda>e.
             bnd (logger ERROR (''Error saving image: '' @ image_repr img
                    @ '': '' @ exn_str e) []) (\<lambda>_.
             bnd (os_unlink f) (\<lambda>_.
             ret False)))) (\<lambda>ok.
     if \<not> ok then ret ()
     else
       bnd (logger DEBUG (''Moving temp cache archive '' @ f @ '' to '' @ dst) []) (\<lambda>_.
       os_rename f dst))"

text \<open>\<open>_save_image\<close>: the file object is closed when the \<open>with\<close> block is left.\<close>

definition DockerCacheSave_save_image :: "'c ambient \<Rightarrow> image \<Rightarrow> string \<Rightarrow> ('c, unit) prog" where
  "DockerCacheSave_save_image amb img dst =
     bnd (named_temporary_file amb (local_cache_directory amb)) (\<lambda>f.
     with_exit (DockerCacheSave_save_image_body amb img dst f) (file_close amb f))"

text \<open>\<open>str.split(sep)\<close> for a separator of one character.\<close>

fun split_char :: "char \<Rightarrow> string \<Rightarrow> string list" where
  "split_char sep [] = [[]]"
| "split_char sep (c # cs) =
     (if c = sep then [] # split_char sep cs
      else (case split_char sep cs of [] \<Rightarrow> [[c]] | r # rs \<Rightarrow> (c # r) # rs))"

text \<open>
  \<open>slugify(img.tags[0]) if img.tags else img.short_id.split(":")[1]\<close>: the value of the
  expression, \<open>None\<close> when the index is out of range.
\<close>

definition archive_name_of :: "'c ambient \<Rightarrow> image \<Rightarrow> string option" where
  "archive_name_of amb img =
     (case tags img of
        t # ts \<Rightarrow> Some (slugify amb t)
      | [] \<Rightarrow> (case split_char (CHR '':'') (short_id img) of
                 a # b # rest \<Rightarrow> Some b
               | _ \<Rightarrow> None))"

definition image_archive_name :: "'c ambient \<Rightarrow> image \<Rightarrow> ('c, string) prog" where
  "image_archive_name amb img =
     (case archive_name_of amb img of Some name \<Rightarrow> ret name | None \<Rightarrow> raise IndexError)"

fun save_images :: "'c ambient \<Rightarrow> string \<Rightarrow> image list \<Rightarrow> ('c, unit) prog" where
  "save_images amb cache_dir [] = ret ()"
| "save_images amb cache_dir (img # imgs) =
     bnd (image_archive_name amb img) (\<lambda>name.
     let dst = os_path_join cache_dir (name @ ''.tar'')
     in
     bnd (DockerCacheSave_save_image amb img dst) (\<lambda>_.
     save_images amb cache_dir imgs))"

definition DockerCacheSave_save :: "'c ambient \<Rightarrow> 'c strategy \<Rightarrow> ('c, unit) prog" where
  "DockerCacheSave_save amb self = (\<lambda>w.
     (let cache_dir = os_path_join (local_cache_directory amb) ''docker''
      in
      bnd (if \<not> os_path_exists cache_dir w then os_makedirs cache_dir else ret ()) (\<lambda>_.
      bnd (logger INFO ''Cache '%s': Saving'' [Str (cache_name self)]) (\<lambda>_.
      bnd (call_images_list amb) (\<lambda>images.
      bnd (save_images amb cache_dir images) (\<lambda>_.
      logger INFO ''Cache '%s': Saved %d image%s in %.3fs''
        [Str (cache_name self), Count (length images),
         Str (if length images \<noteq> 1 then ''s'' else []), Elapsed]))))) w)"

definition NullCacheSave_save :: "'c ambient \<Rightarrow> 'c strategy \<Rightarrow> ('c, unit) prog" where
  "NullCacheSave_save amb self = logger INFO ''Cache '%s': Ignoring'' [Str (cache_name self)]"

fun save :: "'c ambient \<Rightarrow> save_class \<times> 'c strategy \<Rightarrow> ('c, unit) prog" where
  "save amb (CacheSave, self) = CacheSave_save amb self"
| "save amb (DockerCacheSave, self) = DockerCacheSave_save amb self"
| "save amb (NullCacheSave, self) = NullCacheSave_save amb self"

definition CacheSaveFactory_get ::
  "'c container \<Rightarrow> string \<Rightarrow> (string \<rightharpoonup> cache) \<Rightarrow> save_class \<times> 'c strategy" where
  "CacheSaveFactory_get container cache_name' cache_definitions' =
     (let cls = (if cache_name' = ''docker'' then NullCacheSave else CacheSave)
      in (cls, \<lparr>container_of = container, cache_name = cache_name',
                cache_definitions = cache_definitions'\<rparr>))"

subsection \<open>CacheManager\<close>

record 'c cache_manager =
  manager_container :: "'c container"
  manager_cache_definitions :: "string \<rightharpoonup> cache"
  ignored_caches :: "string set"

definition CacheManager_init :: "'c container \<Rightarrow> (string \<rightharpoonup> cache) \<Rightarrow> 'c cache_manager" where
  "CacheManager_init container cache_definitions' =
     \<lparr>manager_container = container, manager_cache_definitions = cache_definitions',
      ignored_caches = {''docker''}\<rparr>"

fun CacheManager_upload :: "'c ambient \<Rightarrow> 'c cache_manager \<Rightarrow> string list \<Rightarrow> ('c, unit) prog" where
  "CacheManager_upload amb self [] = ret ()"
| "CacheManager_upload amb self (name # cache_names) =
     bnd (restore amb (CacheRestoreFactory_get (manager_container self) name
                         (manager_cache_definitions self))) (\<lambda>_.
     CacheManager_upload amb self cache_names)"

fun CacheManager_download :: "'c ambient \<Rightarrow> 'c cache_manager \<Rightarrow> string list \<Rightarrow> ('c, unit) prog" where
  "CacheManager_download amb self [] = ret ()"
| "CacheManager_download amb self (name # cache_names) =
     bnd (save amb (CacheSaveFactory_get (manager_container self) name
                      (manager_cache_definitions self))) (\<lambda>_.
     CacheManager_download amb self cache_names)"

text \<open>What a call of \<open>get_archive\<close> gave: whether the transfer raises, and the chunks it yields first.\<close>

definition stream_raises :: "exn + chunk_stream \<Rightarrow> bool" where
  "stream_raises r = (case r of Inl e \<Rightarrow> True | Inr data \<Rightarrow> failure data \<noteq> None)"

definition stream_chunks :: "exn + chunk_stream \<Rightarrow> string list" where
  "stream_chunks r = (case r of Inl e \<Rightarrow> [] | Inr data \<Rightarrow> chunks data)"

definition stream_error :: "exn + chunk_stream \<Rightarrow> exn" where
  "stream_error r = (case r of Inl e \<Rightarrow> e | Inr data \<Rightarrow> (case failure data of Some e \<Rightarrow> e | None \<Rightarrow> Raised []))"

text \<open>The events a call added to the trace.\<close>

definition new_events :: "'c world \<Rightarrow> 'c world \<Rightarrow> event list" where
  "new_events w w' = drop (length (trace w)) (trace w')"

section \<open>The specification model (pipeline\_runner/models.py)\<close>

subsection \<open>Pipeline items and the variables-first rule\<close>

text \<open>A loosely typed document tree, as decoded from the configuration file.\<close>

datatype doc = DNull | DBool bool | DInt int | DStr string | DList "doc list"
  | DMap "(string \<times> doc) list"

datatype schema_error = SchemaError string

record variable =
  var_name :: string
  var_default :: "string option"

text \<open>The three kinds of item of a pipeline; the step type \<open>'s\<close> is whatever the step parser produces.\<close>

datatype 's item = Variables "variable list" | StepWrapper 's | ParallelSteps "'s list"

fun is_variables :: "'s item \<Rightarrow> bool" where
  "is_variables (Variables vs) = True"
| "is_variables (StepWrapper s) = False"
| "is_variables (ParallelSteps ss) = False"

text \<open>
  Modelled from the spec: \<open>models.py\<close> is not among the sources. The stable message of the
  variables-first rule, as \<open>test_parse.py\<close> asserts it.
\<close>

definition variables_first_message :: string where
  "variables_first_message = [CHR 0x27] @ ''variables'' @ [CHR 0x27]
     @ '' can only be the first element of the list''"

text \<open>The first error of a list of results, or all the values in order.\<close>

fun collect :: "('e + 'a) list \<Rightarrow> 'e + 'a list" where
  "collect [] = Inr []"
| "collect (Inl e # rs) = Inl e"
| "collect (Inr x # rs) = (case collect rs of Inl e \<Rightarrow> Inl e | Inr xs \<Rightarrow> Inr (x # xs))"

text \<open>
  Modelled from the spec: \<open>models.py\<close> is not among the sources. A variable is a mapping
  with a \<open>name\<close> and an optional \<open>default\<close>.
\<close>

definition parse_variable :: "doc \<Rightarrow> schema_error + variable" where
  "parse_variable d =
     (case d of
        DMap kvs \<Rightarrow>
          (case map_of kvs ''name'' of
             Some (DStr n) \<Rightarrow>
               (case map_of kvs ''default'' of
                  None \<Rightarrow> Inr \<lparr>var_name = n, var_default = None\<rparr>
                | Some (DStr v) \<Rightarrow> Inr \<lparr>var_name = n, var_default = Some v\<rparr>
                | Some _ \<Rightarrow> Inl (SchemaError ''default: str type expected''))
           | _ \<Rightarrow> Inl (SchemaError ''name: str type expected''))
      | _ \<Rightarrow> Inl (SchemaError ''value is not a valid dict''))"

text \<open>
  Modelled from the spec: item discrimination. An element is classified by which of the
  keys \<open>variables\<close>, \<open>step\<close>, \<open>parallel\<close> it carries, and exactly one must be present. The
  parser of a step is a parameter.
\<close>

definition discriminators :: "(string \<times> doc) list \<Rightarrow> string list" where
  "discriminators kvs =
     filter (\<lambda>k. k = ''variables'' \<or> k = ''step'' \<or> k = ''parallel'') (map fst kvs)"

text \<open>
  Modelled from the spec: \<open>models.py\<close> is not among the sources. A step wrapper is a
  mapping that wraps one step under the key \<open>step\<close>.
\<close>

definition parse_step_wrapper :: "(doc \<Rightarrow> schema_error + 's) \<Rightarrow> doc \<Rightarrow> schema_error + 's" where
  "parse_step_wrapper parse_step d =
     (case d of
        DMap kvs \<Rightarrow>
          (case map_of kvs ''step'' of
             Some s \<Rightarrow> parse_step s
           | None \<Rightarrow> Inl (SchemaError ''step: field required''))
      | _ \<Rightarrow> Inl (SchemaError ''value is not a valid dict''))"

text \<open>
  Modelled from the spec: \<open>models.py\<close> is not among the sources. An element with exactly
  one discriminating key is parsed as the item of that key.
\<close>

definition parse_item :: "(doc \<Rightarrow> schema_error + 's) \<Rightarrow> doc \<Rightarrow> schema_error + 's item" where
  "parse_item parse_step d =
     (case d of
        DMap kvs \<Rightarrow>
          (case discriminators kvs of
             [k] \<Rightarrow>
               (case map_of kvs k of
                  None \<Rightarrow> Inl (SchemaError ''field required'')
                | Some v \<Rightarrow>
                    if k = ''variables''
                    then (case v of
                            DList vs \<Rightarrow> map_sum id Variables (collect (map parse_variable vs))
                          | _ \<Rightarrow> Inl (SchemaError ''variables: value is not a valid list''))
                    else if k = ''step''
                    then map_sum id StepWrapper (parse_step v)
                    else (case v of
                            DList ss \<Rightarrow>
                              map_sum id ParallelSteps
                                (collect (map (parse_step_wrapper parse_step) ss))
                          | _ \<Rightarrow> Inl (SchemaError ''parallel: value is not a valid list'')))
           | _ \<Rightarrow> Inl (SchemaError ''exactly one of variables, step, parallel expected''))
      | _ \<Rightarrow> Inl (SchemaError ''value is not a valid dict''))"

text \<open>
  Modelled from the spec: the variables-first rule. The elements are parsed in order; an
  item of variables at any index but 0 is a schema error with the stable message, and no
  pipeline is produced.
\<close>

definition parse_pipeline :: "(doc \<Rightarrow> schema_error + 's) \<Rightarrow> doc \<Rightarrow> schema_error + 's item list" where
  "parse_pipeline parse_step d =
     (case d of
        DList els \<Rightarrow>
          (case collect (map (parse_item parse_step) els) of
             Inl e \<Rightarrow> Inl e
           | Inr items \<Rightarrow>
               if list_ex is_variables (tl items)
               then Inl (SchemaError variables_first_message)
               else Inr items)
      | _ \<Rightarrow> Inl (SchemaError ''value is not a valid list''))"

subsection \<open>Expansion of environment variables\<close>

text \<open>
  Modelled from the spec: \<open>models.py\<close> is not among the sources. The characters of the
  name of a \<open>$NAME\<close> token: letters, digits and the underscore.
\<close>

definition is_name_char :: "char \<Rightarrow> bool" where
  "is_name_char c =
     (let n = (of_char c :: nat)
      in (97 \<le> n \<and> n \<le> 122) \<or> (65 \<le> n \<and> n \<le> 90) \<or> (48 \<le> n \<and> n \<le> 57) \<or> n = 95)"

datatype mode = Dollar | Bare string | Braced string

text \<open>A token whose name is not in the mapping is left as it is.\<close>

definition resolve :: "(string \<rightharpoonup> string) \<Rightarrow> string \<Rightarrow> string \<Rightarrow> string" where
  "resolve vars n token = (case vars n of Some v \<Rightarrow> v | None \<Rightarrow> token)"

text \<open>
  Modelled from the spec: the environment expander on one string. Every \<open>$NAME\<close> and
  \<open>${NAME}\<close> token is replaced by the value of \<open>NAME\<close> in the mapping. The scanner reads the
  string from left to right; \<open>scan\<close> is in the text between tokens, \<open>scan_in\<close> is inside a
  token.
\<close>

fun scan :: "(string \<rightharpoonup> string) \<Rightarrow> string \<Rightarrow> string"
  and scan_in :: "(string \<rightharpoonup> string) \<Rightarrow> mode \<Rightarrow> string \<Rightarrow> string" where
  "scan vars [] = []"
| "scan vars (c # cs) = (if c = CHR ''$'' then scan_in vars Dollar cs else c # scan vars cs)"
| "scan_in vars Dollar [] = ''$''"
| "scan_in vars Dollar (c # cs) =
     (if c = CHR ''{'' then scan_in vars (Braced []) cs
      else if is_name_char c then scan_in vars (Bare [c]) cs
      else if c = CHR ''$'' then CHR ''$'' # scan_in vars Dollar cs
      else CHR ''$'' # c # scan vars cs)"
| "scan_in vars (Bare n) [] = resolve vars n (''$'' @ n)"
| "scan_in vars (Bare n) (c # cs) =
     (if is_name_char c then scan_in vars (Bare (n @ [c])) cs
      else if c = CHR ''$'' then resolve vars n (''$'' @ n) @ scan_in vars Dollar cs
      else resolve vars n (''$'' @ n) @ c # scan vars cs)"
| "scan_in vars (Braced n) [] = ''${'' @ n"
| "scan_in vars (Braced n) (c # cs) =
     (if c = CHR ''}'' then resolve vars n (''${'' @ n @ ''}'') @ scan vars cs
      else scan_in vars (Braced (n @ [c])) cs)"

text \<open>
  Modelled from the spec: \<open>models.py\<close> is not among the sources. Expansion of one string
  leaf starts in the text between tokens.
\<close>

definition expand_env_vars :: "(string \<rightharpoonup> string) \<Rightarrow> string \<Rightarrow> string" where
  "expand_env_vars vars s = scan vars s"

record aws_credentials =
  access_key_id :: string
  secret_access_key :: string

record image_spec =
  image_name :: string
  username :: "string option"
  password :: "string option"
  email :: "string option"
  run_as_user :: "int option"
  aws :: "aws_credentials option"

text \<open>
  Modelled from the spec: expansion of an \<open>Image\<close>. Every string field is expanded but
  \<open>name\<close>, which is passed through.
\<close>

definition expand_aws :: "(string \<rightharpoonup> string) \<Rightarrow> aws_credentials \<Rightarrow> aws_credentials" where
  "expand_aws vars a =
     \<lparr>access_key_id = expand_env_vars vars (access_key_id a),
      secret_access_key = expand_env_vars vars (secret_access_key a)\<rparr>"

text \<open>
  Modelled from the spec: \<open>models.py\<close> is not among the sources. The fields of an image,
  with \<open>name\<close> excluded from expansion.
\<close>

definition expand_image :: "(string \<rightharpoonup> string) \<Rightarrow> image_spec \<Rightarrow> image_spec" where
  "expand_image vars img =
     \<lparr>image_name = image_name img,
      username = map_option (expand_env_vars vars) (username img),
      password = map_option (expand_env_vars vars) (password img),
      email = map_option (expand_env_vars vars) (email img),
      run_as_user = run_as_user img,
      aws = map_option (expand_aws vars) (aws img)\<rparr>"

section \<open>A concrete setting\<close>

text \<open>
  A small setting to run the definitions in: a local cache directory \<open>/cache\<close>, a
  container whose commands succeed, and a cached archive for \<open>pip\<close>.
\<close>

definition ex_ambient :: "unit ambient" where
  "ex_ambient =
     \<lparr>local_cache_directory = ''/cache'', caches_dir = ''/tmp/caches'',
      temp_name = (\<lambda>d f. os_path_join d ''tmpq1w2e3r4''),
      listdir = (\<lambda>d f. []), slugify = (\<lambda>s. s),
      images_list = (\<lambda>s. (Inr [], s)), images_load = (\<lambda>a s. (Inr (), s)),
      buffer_size = 8192, os_write = (\<lambda>F d. length d)\<rparr>"

definition ex_stream :: chunk_stream where
  "ex_stream = \<lparr>chunks = [''ab'', ''c''], failure = None\<rparr>"

definition ex_broken_stream :: chunk_stream where
  "ex_broken_stream = \<lparr>chunks = [''ab''], failure = Some (Raised ''connection reset'')\<rparr>"

definition ex_container :: "unit container" where
  "ex_container =
     \<lparr>run_command = (\<lambda>cmd s. ((0, Utf8 []), s)),
      put_archive = (\<lambda>d a s. (True, s)),
      path_exists = (\<lambda>p s. (True, s)),
      get_archive = (\<lambda>p s. (Inr ex_stream, s))\<rparr>"

text \<open>A container in which every command exits with status 1 and prints \<open>boom\<close>.\<close>

definition ex_failing_container :: "unit container" where
  "ex_failing_container = ex_container\<lparr>run_command := (\<lambda>cmd s. ((1, Utf8 ''boom''), s))\<rparr>"

text \<open>A container in which only the \<open>mv\<close> of the placement script fails.\<close>

definition ex_placement_failing_container :: "unit container" where
  "ex_placement_failing_container =
     ex_container\<lparr>run_command :=
       (\<lambda>cmd s. if take 2 cmd = ''if'' then ((1, Utf8 ''boom''), s) else ((0, Utf8 []), s))\<rparr>"

definition ex_definitions :: "string \<rightharpoonup> cache" where
  "ex_definitions = [''pip'' \<mapsto> \<lparr>cache_path = ''~/.cache/pip''\<rparr>,
                     ''npm'' \<mapsto> \<lparr>cache_path = ''node_modules''\<rparr>]"

definition ex_world :: "unit world" where
  "ex_world = \<lparr>fs = [''/cache'' \<mapsto> Dir, ''/cache/pip.tar'' \<mapsto> File ''old''],
               cont = (), trace = [],
               open_files = Map.empty\<rparr>"

definition ex_strategy :: "unit container \<Rightarrow> string \<Rightarrow> unit strategy" where
  "ex_strategy c n = \<lparr>container_of = c, cache_name = n, cache_definitions = ex_definitions\<rparr>"

definition ex_world_go :: "unit world" where
  "ex_world_go = \<lparr>fs = [''/cache'' \<mapsto> Dir, ''/cache/go.tar'' \<mapsto> File ''xyz''],
                  cont = (), trace = [],
                  open_files = Map.empty\<rparr>"

text \<open>The operating system takes every byte of every write (the disk never fills).\<close>

definition os_accepts_all :: "'c ambient \<Rightarrow> bool" where
  "os_accepts_all amb = (\<forall>F d. length d \<le> os_write amb F d)"

text \<open>
  What a sequence of \<open>f.write\<close> calls leaves in the file and in the buffer when every
  write is taken: the pair of the bytes on disk and the bytes buffered, for a buffer of
  the given size.
\<close>

fun after_writes :: "nat \<Rightarrow> string \<times> string \<Rightarrow> string list \<Rightarrow> string \<times> string" where
  "after_writes bs (d, b) [] = (d, b)"
| "after_writes bs (d, b) (c # cs) =
     after_writes bs
       (if length b + length c \<le> bs then (d, b @ c)
        else if bs < length c then (d @ b @ c, [])
        else (d @ b, c)) cs"

text \<open>The temporary file a download creates in a world.\<close>

definition download_temp :: "'c ambient \<Rightarrow> 'c world \<Rightarrow> string" where
  "download_temp amb w = temp_name amb (local_cache_directory amb) (fs w)"



text \<open>A full disk: the operating system takes no byte; and the same with a buffer of two bytes.\<close>

definition ex_full_disk_ambient :: "unit ambient" where
  "ex_full_disk_ambient = ex_ambient\<lparr>os_write := (\<lambda>F d. 0)\<rparr>"

definition ex_small_buffer_ambient :: "unit ambient" where
  "ex_small_buffer_ambient = ex_ambient\<lparr>buffer_size := 2, os_write := (\<lambda>F d. 0)\<rparr>"

text \<open>A container whose archive stream breaks after the first chunk.\<close>

definition ex_broken_container :: "unit container" where
  "ex_broken_container = ex_container\<lparr>get_archive := (\<lambda>p s. (Inr ex_broken_stream, s))\<rparr>"

definition ex_manager :: "unit container \<Rightarrow> unit cache_manager" where
  "ex_manager c = CacheManager_init c ex_definitions"









text \<open>The two pipelines of the tests: variables then a step, and a step then variables.\<close>

definition ex_variables_element :: doc where
  "ex_variables_element =
     DMap [(''variables'', DList [DMap [(''name'', DStr ''foo'')], DMap [(''name'', DStr ''bar'')]])]"

definition ex_step_doc :: doc where
  "ex_step_doc =
     DMap [(''name'', DStr ''Step 1''),
           (''script'', DList [DStr ''cat /etc/os-release'', DStr ''exit 0''])]"

definition ex_step_element :: doc where
  "ex_step_element = DMap [(''step'', ex_step_doc)]"

text \<open>The image and the variables of the test of expansion.\<close>

definition ex_image_spec :: image_spec where
  "ex_image_spec =
     \<lparr>image_name = ''${IMAGE_NAME}'',
      username = Some ''$REPO_USERNAME'',
      password = Some ''$REPO_PASSWORD'',
      email = Some ''$REPO_EMAIL'',
      run_as_user = None,
      aws = Some \<lparr>access_key_id = ''$AWS_ACCESS_KEY_ID'',
                  secret_access_key = ''$AWS_SECRET_ACCESS_KEY''\<rparr>\<rparr>"

definition ex_env_vars :: "string \<rightharpoonup> string" where
  "ex_env_vars = map_of
     [(''IMAGE_NAME'', ''alpine:latest''),
      (''REPO_USERNAME'', ''my-username''),
      (''REPO_PASSWORD'', ''my-password''),
      (''REPO_EMAIL'', ''my-email''),
      (''AWS_ACCESS_KEY_ID'', ''access-key-id''),
      (''AWS_SECRET_ACCESS_KEY'', ''secret-access-key'')]"

section \<open>Properties of the cache subsystem\<close>

lemmas prog_defs = bnd_def ret_def raise_def try_except_def emit_def logger_def decode_def
  lookup_definition_def

lemma archive_path_nonempty: "get_local_cache_archive_path amb n \<noteq> []"
  by (simp add: get_local_cache_archive_path_def os_path_join_def)

lemma upload_ignores_set:
  "CacheManager_upload amb (m\<lparr>ignored_caches := X\<rparr>) names = CacheManager_upload amb m names"
  by (induction names) simp_all

lemma download_ignores_set:
  "CacheManager_download amb (m\<lparr>ignored_caches := X\<rparr>) names
   = CacheManager_download amb m names"
  by (induction names) simp_all

text \<open>
  C2. The class a factory picks depends on the cache name only, not on the container, the
  definitions or the manager's set of ignored caches: \<open>docker\<close> gives the no-op strategy,
  which adds one log record (\<open>Ignoring\<close>) and leaves the filesystem and the container
  as they are, and any other name gives the generic strategy. Neither factory ever picks
  \<open>DockerCacheRestore\<close> or \<open>DockerCacheSave\<close>.
\<close>

theorem strategy_resolution_by_name:
  "fst (CacheRestoreFactory_get c n d) = (if n = ''docker'' then NullCacheRestore else CacheRestore)
   \<and> fst (CacheSaveFactory_get c n d) = (if n = ''docker'' then NullCacheSave else CacheSave)
   \<and> fst (CacheRestoreFactory_get c n d) = fst (CacheRestoreFactory_get c' n d')
   \<and> fst (CacheSaveFactory_get c n d) = fst (CacheSaveFactory_get c' n d')
   \<and> fst (CacheRestoreFactory_get c n d) \<noteq> DockerCacheRestore
   \<and> fst (CacheSaveFactory_get c n d) \<noteq> DockerCacheSave
   \<and> restore amb (CacheRestoreFactory_get c ''docker'' d) w
       = (Inr (), w\<lparr>trace := trace w @ [Log INFO ''Cache '%s': Ignoring'' [Str ''docker'']]\<rparr>)
   \<and> save amb (CacheSaveFactory_get c ''docker'' d) w
       = (Inr (), w\<lparr>trace := trace w @ [Log INFO ''Cache '%s': Ignoring'' [Str ''docker'']]\<rparr>)
   \<and> CacheManager_upload amb (m\<lparr>ignored_caches := X\<rparr>) names
       = CacheManager_upload amb m names
   \<and> CacheManager_download amb (m\<lparr>ignored_caches := X\<rparr>) names
       = CacheManager_download amb m names"
  by (simp add: CacheRestoreFactory_get_def CacheSaveFactory_get_def NullCacheRestore_restore_def
      NullCacheSave_save_def logger_def emit_def upload_ignores_set download_ignores_set)

text \<open>
  C4. When the local archive of the cache name does not exist, the generic restore only
  logs \<open>Not found: Skipping\<close> and returns: no call reaches the container, whose state is
  unchanged.
\<close>

theorem restore_without_local_archive:
  assumes "fs w (get_local_cache_archive_path amb (cache_name self)) = None"
  shows "CacheRestore_restore amb self w
         = (Inr (), w\<lparr>trace := trace w @
              [Log INFO ''Cache '%s': Not found: Skipping'' [Str (cache_name self)]]\<rparr>)
       \<and> filter is_remote_call (new_events w (snd (CacheRestore_restore amb self w))) = []
       \<and> cont (snd (CacheRestore_restore amb self w)) = cont w"
  using assms
  by (simp add: CacheRestore_restore_def CacheRestore_get_local_cache_file_def os_path_exists_def
      logger_def emit_def new_events_def)

theorem restore_without_local_archive_witness:
  "fs ex_world (get_local_cache_archive_path ex_ambient
      (cache_name (ex_strategy ex_container ''npm''))) = None
   \<and> fst (CacheRestore_restore ex_ambient (ex_strategy ex_container ''npm'') ex_world) = Inr ()
   \<and> trace (snd (CacheRestore_restore ex_ambient (ex_strategy ex_container ''npm'') ex_world))
       = [Log INFO ''Cache '%s': Not found: Skipping'' [Str ''npm'']]"
proof -
  have h: "fs ex_world (get_local_cache_archive_path ex_ambient
      (cache_name (ex_strategy ex_container ''npm''))) = None"
    by (simp add: ex_world_def get_local_cache_archive_path_def ex_ambient_def ex_strategy_def
        os_path_join_def)
  show ?thesis
    using h restore_without_local_archive[OF h] by (simp add: ex_world_def ex_strategy_def)
qed

lemma prepare_ok:
  assumes "cache_definitions self (cache_name self) = Some d"
    and "run_command (container_of self)
           (prepare_cache_cmd (sanitize_remote_path (cache_path d))
              (get_remote_temp_directory amb (cache_name self))) (cont w) = ((0, out), s1)"
  shows "CacheSave_prepare amb self w
         = (Inr (get_remote_temp_directory amb (cache_name self)),
            w\<lparr>cont := s1,
              trace := trace w @
                [Log INFO ''Cache '%s': Preparing'' [Str (cache_name self)],
                 RunCommand (prepare_cache_cmd (sanitize_remote_path (cache_path d))
                    (get_remote_temp_directory amb (cache_name self))),
                 Log INFO ''Cache '%s': Prepared in %.3fs'' [Str (cache_name self), Elapsed]]\<rparr>)"
  using assms
  by (simp add: CacheSave_prepare_def prog_defs call_run_command_def Let_def)

lemma download_not_found:
  assumes "path_exists (container_of self) src (cont w) = (False, s2)"
  shows "CacheSave_download amb self src dst w
         = (Inr (), w\<lparr>cont := s2,
              trace := trace w @
                [PathExists src, Log INFO ''Cache '%s': Not found'' [Str (cache_name self)]]\<rparr>)"
  using assms
  by (simp add: CacheSave_download_def prog_defs call_path_exists_def)

text \<open>
  C5. When the prepare command succeeds and the staging path does not exist in the
  container, the generic save returns normally after the existence check: the local
  filesystem is as before and the call made no local write (no temporary file, no rename).
\<close>

theorem save_without_remote_directory:
  assumes "cache_definitions self (cache_name self) = Some d"
    and "run_command (container_of self)
           (prepare_cache_cmd (sanitize_remote_path (cache_path d))
              (get_remote_temp_directory amb (cache_name self))) (cont w) = ((0, out), s1)"
    and "path_exists (container_of self)
           (get_remote_temp_directory amb (cache_name self)) s1 = (False, s2)"
  shows "CacheSave_save amb self w
         = (Inr (), w\<lparr>cont := s2,
              trace := trace w @
                [Log INFO ''Cache '%s': Preparing'' [Str (cache_name self)],
                 RunCommand (prepare_cache_cmd (sanitize_remote_path (cache_path d))
                    (get_remote_temp_directory amb (cache_name self))),
                 Log INFO ''Cache '%s': Prepared in %.3fs'' [Str (cache_name self), Elapsed],
                 PathExists (get_remote_temp_directory amb (cache_name self)),
                 Log INFO ''Cache '%s': Not found'' [Str (cache_name self)]]\<rparr>)
       \<and> fs (snd (CacheSave_save amb self w)) = fs w
       \<and> filter is_local_write (new_events w (snd (CacheSave_save amb self w))) = []"
proof -
  let ?src = "get_remote_temp_directory amb (cache_name self)"
  let ?w1 = "snd (CacheSave_prepare amb self w)"
  note p = prepare_ok[OF assms(1,2)]
  have c1: "cont ?w1 = s1"
    using p by simp
  have d: "CacheSave_download amb self ?src dst ?w1
      = (Inr (), ?w1\<lparr>cont := s2, trace := trace ?w1 @
            [PathExists ?src, Log INFO ''Cache '%s': Not found'' [Str (cache_name self)]]\<rparr>)"
    for dst
    using download_not_found[of self ?src ?w1 s2] assms(3) c1 by simp
  have e: "CacheSave_save amb self w
         = (Inr (), w\<lparr>cont := s2,
              trace := trace w @
                [Log INFO ''Cache '%s': Preparing'' [Str (cache_name self)],
                 RunCommand (prepare_cache_cmd (sanitize_remote_path (cache_path d)) ?src),
                 Log INFO ''Cache '%s': Prepared in %.3fs'' [Str (cache_name self), Elapsed],
                 PathExists ?src,
                 Log INFO ''Cache '%s': Not found'' [Str (cache_name self)]]\<rparr>)"
    unfolding CacheSave_save_def bnd_def Let_def
    using d p by simp
  show ?thesis
    unfolding e by (simp add: new_events_def)
qed

theorem save_without_remote_directory_witness:
  "cache_definitions (ex_strategy (ex_container\<lparr>path_exists := (\<lambda>p s. (False, s))\<rparr>) ''pip'') ''pip''
     = Some \<lparr>cache_path = ''~/.cache/pip''\<rparr>
   \<and> fs (snd (CacheSave_save ex_ambient
         (ex_strategy (ex_container\<lparr>path_exists := (\<lambda>p s. (False, s))\<rparr>) ''pip'') ex_world))
     = fs ex_world
   \<and> fst (CacheSave_save ex_ambient
         (ex_strategy (ex_container\<lparr>path_exists := (\<lambda>p s. (False, s))\<rparr>) ''pip'') ex_world)
     = Inr ()"
  using save_without_remote_directory[of
      "ex_strategy (ex_container\<lparr>path_exists := (\<lambda>p s. (False, s))\<rparr>) ''pip''"
      "\<lparr>cache_path = ''~/.cache/pip''\<rparr>" ex_ambient ex_world "Utf8 []" "()" "()"]
  by (simp add: ex_strategy_def ex_definitions_def ex_container_def)

subsection \<open>The phases of the generic restore\<close>

lemma upload_ok:
  assumes "fs w p = Some (File data)"
    and "run_command (container_of self)
           (prepare_cache_dir_cmd (get_remote_temp_directory amb (cache_name self))
              (os_path_dirname (get_remote_temp_directory amb (cache_name self)))) (cont w)
         = ((0, out), s1)"
    and "put_archive (container_of self)
           (os_path_dirname (get_remote_temp_directory amb (cache_name self))) data s1 = (True, s2)"
  shows "CacheRestore_upload_cache amb self p w
         = (Inr (), w\<lparr>cont := s2,
              trace := trace w @
                [Log INFO ''Cache '%s': Uploading'' [Str (cache_name self)],
                 RunCommand (prepare_cache_dir_cmd (get_remote_temp_directory amb (cache_name self))
                    (os_path_dirname (get_remote_temp_directory amb (cache_name self)))),
                 PutArchive (os_path_dirname (get_remote_temp_directory amb (cache_name self))) data,
                 Log INFO ''Cache '%s': Uploaded %s in %.3fs''
                   [Str (cache_name self), HumanSize (length data), Elapsed]]\<rparr>)"
  using assms
  by (simp add: CacheRestore_upload_cache_def prog_defs call_run_command_def call_put_archive_def
      os_path_getsize_def open_rb_def Let_def)

lemma upload_command_fails:
  assumes "fs w p = Some nd"
    and "run_command (container_of self)
           (prepare_cache_dir_cmd (get_remote_temp_directory amb (cache_name self))
              (os_path_dirname (get_remote_temp_directory amb (cache_name self)))) (cont w)
         = ((code, Utf8 out), s1)"
    and "code \<noteq> 0"
  shows "CacheRestore_upload_cache amb self p w
         = (Inl (Exception (''Error uploading cache: '' @ cache_name self)),
            w\<lparr>cont := s1,
              trace := trace w @
                [Log INFO ''Cache '%s': Uploading'' [Str (cache_name self)],
                 RunCommand (prepare_cache_dir_cmd (get_remote_temp_directory amb (cache_name self))
                    (os_path_dirname (get_remote_temp_directory amb (cache_name self)))),
                 Log ERROR ''Remote command failed: %s'' [Str out]]\<rparr>)"
  using assms
  by (cases nd)
     (simp_all add: CacheRestore_upload_cache_def prog_defs call_run_command_def
      os_path_getsize_def Let_def)

lemma upload_command_fails_fatal:
  assumes "fs w p = Some nd"
    and "run_command (container_of self)
           (prepare_cache_dir_cmd (get_remote_temp_directory amb (cache_name self))
              (os_path_dirname (get_remote_temp_directory amb (cache_name self)))) (cont w)
         = ((code, out), s1)"
    and "code \<noteq> 0"
  shows "isl (fst (CacheRestore_upload_cache amb self p w))"
  using assms
  by (cases nd; cases out)
     (simp_all add: CacheRestore_upload_cache_def prog_defs call_run_command_def
      os_path_getsize_def Let_def)

lemma restore_cache_command_fails:
  assumes "cache_definitions self (cache_name self) = Some d"
    and "run_command (container_of self)
           (restore_cache_script (sanitize_remote_path (cache_path d))
              (get_remote_temp_directory amb (cache_name self))) (cont w)
         = ((code, Utf8 out), s1)"
    and "code \<noteq> 0"
  shows "CacheRestore_restore_cache amb self w
         = (Inl (Exception (''Error restoring cache: '' @ cache_name self @ '': '' @ out)),
            w\<lparr>cont := s1,
              trace := trace w @
                [Log INFO ''Cache '%s': Restoring'' [Str (cache_name self)],
                 RunCommand (restore_cache_script (sanitize_remote_path (cache_path d))
                    (get_remote_temp_directory amb (cache_name self)))]\<rparr>)"
  using assms
  by (simp add: CacheRestore_restore_cache_def prog_defs call_run_command_def Let_def)

lemma restore_cache_command_fails_fatal:
  assumes "cache_definitions self (cache_name self) = Some d"
    and "run_command (container_of self)
           (restore_cache_script (sanitize_remote_path (cache_path d))
              (get_remote_temp_directory amb (cache_name self))) (cont w)
         = ((code, out), s1)"
    and "code \<noteq> 0"
  shows "isl (fst (CacheRestore_restore_cache amb self w))"
  using assms
  by (cases out)
     (simp_all add: CacheRestore_restore_cache_def prog_defs call_run_command_def Let_def)

lemma restore_with_archive:
  assumes "fs w (get_local_cache_archive_path amb (cache_name self)) = Some nd"
  shows "CacheRestore_restore amb self w
         = bnd (CacheRestore_upload_cache amb self (get_local_cache_archive_path amb (cache_name self)))
             (\<lambda>_. CacheRestore_restore_cache amb self) w"
  using assms
  by (simp add: CacheRestore_restore_def CacheRestore_get_local_cache_file_def os_path_exists_def
      archive_path_nonempty)

lemma restore_cache_undefined:
  assumes "cache_definitions self (cache_name self) = None"
  shows "CacheRestore_restore_cache amb self w = (Inl (KeyError (cache_name self)), w)"
  using assms by (simp add: CacheRestore_restore_cache_def prog_defs)

lemma prepare_undefined:
  assumes "cache_definitions self (cache_name self) = None"
  shows "CacheSave_prepare amb self w = (Inl (KeyError (cache_name self)), w)"
  using assms by (simp add: CacheSave_prepare_def prog_defs)

text \<open>
  C10. A cache name other than \<open>docker\<close> that has no entry in the definitions: the generic
  save raises \<open>KeyError\<close> at once, with the world untouched (no command was sent), and the
  generic restore of an existing local archive raises \<open>KeyError\<close> after a successful upload
  phase, when the prepare command and \<open>put_archive\<close> have already run. The error is not
  the \<open>Exception\<close> the transfer failures raise.
\<close>

theorem undefined_cache_name_lookup_error:
  assumes "d n = None" and "n \<noteq> ''docker''"
  shows "save amb (CacheSaveFactory_get c n d) w = (Inl (KeyError n), w)
    \<and> (fs w (get_local_cache_archive_path amb n) = Some (File data)
        \<and> run_command c
             (prepare_cache_dir_cmd (get_remote_temp_directory amb n)
                (os_path_dirname (get_remote_temp_directory amb n))) (cont w) = ((0, out), s1)
        \<and> put_archive c (os_path_dirname (get_remote_temp_directory amb n)) data s1 = (True, s2)
       \<longrightarrow> restore amb (CacheRestoreFactory_get c n d) w
           = (Inl (KeyError n),
              w\<lparr>cont := s2,
                trace := trace w @
                  [Log INFO ''Cache '%s': Uploading'' [Str n],
                   RunCommand (prepare_cache_dir_cmd (get_remote_temp_directory amb n)
                      (os_path_dirname (get_remote_temp_directory amb n))),
                   PutArchive (os_path_dirname (get_remote_temp_directory amb n)) data,
                   Log INFO ''Cache '%s': Uploaded %s in %.3fs''
                     [Str n, HumanSize (length data), Elapsed]]\<rparr>))
    \<and> KeyError n \<noteq> Exception msg"
proof -
  let ?self = "\<lparr>container_of = c, cache_name = n, cache_definitions = d\<rparr>"
  have u: "cache_definitions ?self (cache_name ?self) = None"
    using assms(1) by simp
  have s: "save amb (CacheSaveFactory_get c n d) w = (Inl (KeyError n), w)"
    using assms(2) prepare_undefined[OF u, of amb w]
    by (simp add: CacheSaveFactory_get_def CacheSave_save_def bnd_def)
  have r: "restore amb (CacheRestoreFactory_get c n d) w
           = (Inl (KeyError n),
              w\<lparr>cont := s2,
                trace := trace w @
                  [Log INFO ''Cache '%s': Uploading'' [Str n],
                   RunCommand (prepare_cache_dir_cmd (get_remote_temp_directory amb n)
                      (os_path_dirname (get_remote_temp_directory amb n))),
                   PutArchive (os_path_dirname (get_remote_temp_directory amb n)) data,
                   Log INFO ''Cache '%s': Uploaded %s in %.3fs''
                     [Str n, HumanSize (length data), Elapsed]]\<rparr>)"
    if f: "fs w (get_local_cache_archive_path amb n) = Some (File data)"
      and rc: "run_command c
             (prepare_cache_dir_cmd (get_remote_temp_directory amb n)
                (os_path_dirname (get_remote_temp_directory amb n))) (cont w) = ((0, out), s1)"
      and pa: "put_archive c (os_path_dirname (get_remote_temp_directory amb n)) data s1 = (True, s2)"
  proof -
    have up: "CacheRestore_upload_cache amb ?self (get_local_cache_archive_path amb n) w
         = (Inr (), w\<lparr>cont := s2,
              trace := trace w @
                [Log INFO ''Cache '%s': Uploading'' [Str n],
                 RunCommand (prepare_cache_dir_cmd (get_remote_temp_directory amb n)
                    (os_path_dirname (get_remote_temp_directory amb n))),
                 PutArchive (os_path_dirname (get_remote_temp_directory amb n)) data,
                 Log INFO ''Cache '%s': Uploaded %s in %.3fs''
                   [Str n, HumanSize (length data), Elapsed]]\<rparr>)"
      using upload_ok[of w "get_local_cache_archive_path amb n" data ?self amb out s1 s2] f rc pa
      by simp
    have "restore amb (CacheRestoreFactory_get c n d) w = CacheRestore_restore amb ?self w"
      using assms(2) by (simp add: CacheRestoreFactory_get_def)
    also have "\<dots> = bnd (CacheRestore_upload_cache amb ?self (get_local_cache_archive_path amb n))
             (\<lambda>_. CacheRestore_restore_cache amb ?self) w"
      using restore_with_archive[of w amb ?self "File data"] f by simp
    finally show ?thesis
      using up restore_cache_undefined[OF u, of amb] by (simp add: bnd_def)
  qed
  show ?thesis
    using s r by simp
qed

theorem undefined_cache_name_lookup_error_witness:
  \<open>ex_definitions ''go'' = None \<and> ''go'' \<noteq> ''docker''
   \<and> save ex_ambient (CacheSaveFactory_get ex_container ''go'' ex_definitions) ex_world_go
       = (Inl (KeyError ''go''), ex_world_go)
   \<and> fst (restore ex_ambient (CacheRestoreFactory_get ex_container ''go'' ex_definitions) ex_world_go)
       = Inl (KeyError ''go'')
   \<and> filter is_remote_call
        (trace (snd (restore ex_ambient (CacheRestoreFactory_get ex_container ''go'' ex_definitions)
           ex_world_go)))
       = [RunCommand ''[ -d "/tmp/caches/go" ] && rm -rf "/tmp/caches/go"; mkdir -p "/tmp/caches"'',
          PutArchive ''/tmp/caches'' ''xyz'']\<close>
proof -
  have h1: "ex_definitions ''go'' = None"
    by (simp add: ex_definitions_def)
  have h2: "''go'' \<noteq> ''docker''"
    by simp
  have p: "get_local_cache_archive_path ex_ambient ''go'' = ''/cache/go.tar''"
    by (simp add: get_local_cache_archive_path_def ex_ambient_def os_path_join_def)
  have t: "get_remote_temp_directory ex_ambient ''go'' = ''/tmp/caches/go''"
    by (simp add: get_remote_temp_directory_def ex_ambient_def os_path_join_def)
  have dn: "os_path_dirname ''/tmp/caches/go'' = ''/tmp/caches''"
    by (simp add: os_path_dirname_def)
  have cmd: \<open>prepare_cache_dir_cmd ''/tmp/caches/go'' ''/tmp/caches''
      = ''[ -d "/tmp/caches/go" ] && rm -rf "/tmp/caches/go"; mkdir -p "/tmp/caches"''\<close>
    by (simp add: prepare_cache_dir_cmd_def)
  show ?thesis
    using h1 h2
      undefined_cache_name_lookup_error[of ex_definitions "''go''" ex_ambient ex_container
        ex_world_go "''xyz''" "Utf8 []" "()" "()"]
    by (simp add: p t dn cmd ex_world_go_def ex_container_def)
qed

lemma bnd_raises: "isl (fst (m w)) \<Longrightarrow> isl (fst (bnd m f w))"
  by (cases "m w") (auto simp: bnd_def isl_def)

lemma ex_paths:
  "get_local_cache_archive_path ex_ambient ''pip'' = ''/cache/pip.tar''"
  "get_remote_temp_directory ex_ambient ''pip'' = ''/tmp/caches/pip''"
  "os_path_dirname ''/tmp/caches/pip'' = ''/tmp/caches''"
  by (simp_all add: get_local_cache_archive_path_def get_remote_temp_directory_def ex_ambient_def
      os_path_join_def os_path_dirname_def)

text \<open>
  C6 (as amended). During the generic restore of an existing local archive, a non-zero
  exit code of either remote command raises. For the preparation command of the upload
  phase the captured output is logged at error level and the exception carries the cache
  name only; for the placement command of the restore phase the exception's message ends
  with the decoded output. In both cases, whatever the output, restore raises.
\<close>

theorem restore_remote_command_failure:
  "(fs w (get_local_cache_archive_path amb (cache_name self)) = Some nd
    \<and> run_command (container_of self)
         (prepare_cache_dir_cmd (get_remote_temp_directory amb (cache_name self))
            (os_path_dirname (get_remote_temp_directory amb (cache_name self)))) (cont w)
       = ((code, Utf8 out), s1)
    \<and> code \<noteq> 0
    \<longrightarrow> CacheRestore_restore amb self w
        = (Inl (Exception (''Error uploading cache: '' @ cache_name self)),
           w\<lparr>cont := s1,
             trace := trace w @
               [Log INFO ''Cache '%s': Uploading'' [Str (cache_name self)],
                RunCommand (prepare_cache_dir_cmd (get_remote_temp_directory amb (cache_name self))
                   (os_path_dirname (get_remote_temp_directory amb (cache_name self)))),
                Log ERROR ''Remote command failed: %s'' [Str out]]\<rparr>))
   \<and> (fs w (get_local_cache_archive_path amb (cache_name self)) = Some nd
    \<and> CacheRestore_upload_cache amb self (get_local_cache_archive_path amb (cache_name self)) w
       = (Inr (), w1)
    \<and> cache_definitions self (cache_name self) = Some d
    \<and> run_command (container_of self)
         (restore_cache_script (sanitize_remote_path (cache_path d))
            (get_remote_temp_directory amb (cache_name self))) (cont w1)
       = ((code, Utf8 out), s2)
    \<and> code \<noteq> 0
    \<longrightarrow> fst (CacheRestore_restore amb self w)
          = Inl (Exception (''Error restoring cache: '' @ cache_name self @ '': '' @ out))
        \<and> sublist out (''Error restoring cache: '' @ cache_name self @ '': '' @ out))
   \<and> (fs w (get_local_cache_archive_path amb (cache_name self)) = Some nd
    \<and> run_command (container_of self)
         (prepare_cache_dir_cmd (get_remote_temp_directory amb (cache_name self))
            (os_path_dirname (get_remote_temp_directory amb (cache_name self)))) (cont w)
       = ((code, raw), s1)
    \<and> code \<noteq> 0
    \<longrightarrow> isl (fst (CacheRestore_restore amb self w)))
   \<and> (fs w (get_local_cache_archive_path amb (cache_name self)) = Some nd
    \<and> CacheRestore_upload_cache amb self (get_local_cache_archive_path amb (cache_name self)) w
       = (Inr (), w1)
    \<and> cache_definitions self (cache_name self) = Some d
    \<and> run_command (container_of self)
         (restore_cache_script (sanitize_remote_path (cache_path d))
            (get_remote_temp_directory amb (cache_name self))) (cont w1)
       = ((code, raw), s2)
    \<and> code \<noteq> 0
    \<longrightarrow> isl (fst (CacheRestore_restore amb self w)))"
proof (intro conjI impI; elim conjE)
  let ?p = "get_local_cache_archive_path amb (cache_name self)"
  {
    assume f: "fs w ?p = Some nd"
    note r = restore_with_archive[OF f]
    {
      assume "run_command (container_of self)
         (prepare_cache_dir_cmd (get_remote_temp_directory amb (cache_name self))
            (os_path_dirname (get_remote_temp_directory amb (cache_name self)))) (cont w)
       = ((code, Utf8 out), s1)" and "code \<noteq> 0"
      from upload_command_fails[OF f this]
      show "CacheRestore_restore amb self w
        = (Inl (Exception (''Error uploading cache: '' @ cache_name self)),
           w\<lparr>cont := s1,
             trace := trace w @
               [Log INFO ''Cache '%s': Uploading'' [Str (cache_name self)],
                RunCommand (prepare_cache_dir_cmd (get_remote_temp_directory amb (cache_name self))
                   (os_path_dirname (get_remote_temp_directory amb (cache_name self)))),
                Log ERROR ''Remote command failed: %s'' [Str out]]\<rparr>)"
        by (simp add: r bnd_def)
    }
    {
      assume "run_command (container_of self)
         (prepare_cache_dir_cmd (get_remote_temp_directory amb (cache_name self))
            (os_path_dirname (get_remote_temp_directory amb (cache_name self)))) (cont w)
       = ((code, raw), s1)" and "code \<noteq> 0"
      from upload_command_fails_fatal[OF f this]
      show "isl (fst (CacheRestore_restore amb self w))"
        by (simp add: r bnd_raises)
    }
    {
      assume u: "CacheRestore_upload_cache amb self ?p w = (Inr (), w1)"
        and d: "cache_definitions self (cache_name self) = Some d"
        and c: "code \<noteq> 0"
      {
        assume "run_command (container_of self)
           (restore_cache_script (sanitize_remote_path (cache_path d))
              (get_remote_temp_directory amb (cache_name self))) (cont w1)
           = ((code, Utf8 out), s2)"
        from restore_cache_command_fails[OF d this c]
        show "fst (CacheRestore_restore amb self w)
          = Inl (Exception (''Error restoring cache: '' @ cache_name self @ '': '' @ out))"
          by (simp add: r bnd_def u)
      }
      {
        assume "run_command (container_of self)
           (restore_cache_script (sanitize_remote_path (cache_path d))
              (get_remote_temp_directory amb (cache_name self))) (cont w1)
           = ((code, raw), s2)"
        from restore_cache_command_fails_fatal[OF d this c]
        show "isl (fst (CacheRestore_restore amb self w))"
          by (simp add: r bnd_def u)
      }
    }
  }
  show "sublist out (''Error restoring cache: '' @ cache_name self @ '': '' @ out)"
    by (metis sublist_appendI append.right_neutral append.assoc)
qed

theorem restore_remote_command_failure_witness:
  "fst (CacheRestore_restore ex_ambient (ex_strategy ex_failing_container ''pip'') ex_world)
     = Inl (Exception ''Error uploading cache: pip'')
   \<and> trace (snd (CacheRestore_restore ex_ambient (ex_strategy ex_failing_container ''pip'') ex_world))
     ! 2 = Log ERROR ''Remote command failed: %s'' [Str ''boom'']
   \<and> fst (CacheRestore_restore ex_ambient (ex_strategy ex_placement_failing_container ''pip'')
        ex_world)
     = Inl (Exception ''Error restoring cache: pip: boom'')"
proof -
  let ?w1 = "snd (CacheRestore_upload_cache ex_ambient
                (ex_strategy ex_placement_failing_container ''pip'') ''/cache/pip.tar'' ex_world)"
  have f: "fs ex_world ''/cache/pip.tar'' = Some (File ''old'')"
    by (simp add: ex_world_def)
  have u: "CacheRestore_upload_cache ex_ambient
             (ex_strategy ex_placement_failing_container ''pip'') ''/cache/pip.tar'' ex_world
           = (Inr (), ?w1)"
    using upload_ok[of ex_world "''/cache/pip.tar''" "''old''"
        "ex_strategy ex_placement_failing_container ''pip''" ex_ambient "Utf8 []" "()" "()"]
    by (simp add: f ex_paths ex_strategy_def ex_placement_failing_container_def ex_container_def
        prepare_cache_dir_cmd_def)
  have d: "cache_definitions (ex_strategy ex_placement_failing_container ''pip'') ''pip''
           = Some \<lparr>cache_path = ''~/.cache/pip''\<rparr>"
    by (simp add: ex_strategy_def ex_definitions_def)
  have r: "run_command (container_of (ex_strategy ex_placement_failing_container ''pip''))
         (restore_cache_script (sanitize_remote_path ''~/.cache/pip'') ''/tmp/caches/pip'') (cont ?w1)
       = ((1, Utf8 ''boom''), ())"
    by (simp add: ex_strategy_def ex_placement_failing_container_def ex_container_def
        restore_cache_script_def)
  have r0: "run_command (container_of (ex_strategy ex_failing_container ''pip''))
         (prepare_cache_dir_cmd ''/tmp/caches/pip'' ''/tmp/caches'') (cont ex_world)
       = ((1, Utf8 ''boom''), ())"
    by (simp add: ex_strategy_def ex_failing_container_def ex_container_def)
  show ?thesis
    using restore_remote_command_failure[of ex_world ex_ambient
        "ex_strategy ex_failing_container ''pip''" "File ''old''" 1 "''boom''" "()"]
      restore_remote_command_failure[of ex_world ex_ambient
        "ex_strategy ex_placement_failing_container ''pip''" "File ''old''" 1 "''boom''" _ ?w1
        "\<lparr>cache_path = ''~/.cache/pip''\<rparr>" "()"]
      f u d r r0
    by (simp add: ex_paths ex_strategy_def ex_world_def)
qed

text \<open>
  C6, as stated, fails for the preparation command: in the concrete setting the command
  exits with status 1 and prints \<open>boom\<close>, and the message of the exception raised does
  not contain the output.
\<close>

theorem upload_failure_hides_output:
  "fst (run_command ex_failing_container
          (prepare_cache_dir_cmd ''/tmp/caches/pip'' ''/tmp/caches'') ()) = (1, Utf8 ''boom'')
   \<and> fst (CacheRestore_restore ex_ambient (ex_strategy ex_failing_container ''pip'') ex_world)
       = Inl (Exception ''Error uploading cache: pip'')
   \<and> \<not> sublist ''boom'' ''Error uploading cache: pip''"
proof -
  have a: "fst (run_command ex_failing_container
          (prepare_cache_dir_cmd ''/tmp/caches/pip'' ''/tmp/caches'') ()) = (1, Utf8 ''boom'')"
    by (simp add: ex_failing_container_def ex_container_def)
  have f: "fs ex_world ''/cache/pip.tar'' = Some (File ''old'')"
    by (simp add: ex_world_def)
  have b: "fst (CacheRestore_restore ex_ambient (ex_strategy ex_failing_container ''pip'') ex_world)
       = Inl (Exception ''Error uploading cache: pip'')"
    using upload_command_fails[of ex_world "''/cache/pip.tar''" "File ''old''"
        "ex_strategy ex_failing_container ''pip''" ex_ambient 1 "''boom''" "()"]
      restore_with_archive[of ex_world ex_ambient "ex_strategy ex_failing_container ''pip''" "File ''old''"]
    by (simp add: ex_paths f ex_strategy_def ex_failing_container_def ex_container_def
        ex_world_def bnd_def)
  have c: "\<not> sublist ''boom'' ''Error uploading cache: pip''"
    by code_simp
  show ?thesis
    using a b c by blast
qed

subsection \<open>Streaming into the temporary file\<close>


lemma taken_all:
  "os_accepts_all amb \<Longrightarrow> min (os_write amb F d) (length d) = length d"
  by (simp add: os_accepts_all_def min_absorb2)

lemma raw_write_linked:
  assumes "os_accepts_all amb"
    and "open_files w name = Some h" and "linked_at h = Some p" and "fs w p = Some (File d)"
  shows "raw_write amb name data w = (length data, w\<lparr>fs := (fs w)(p \<mapsto> File (d @ data))\<rparr>)"
  using assms
  by (simp add: raw_write_def taken_all Let_def file_content_def)

lemma raw_write_unlinked:
  assumes "os_accepts_all amb"
    and "open_files w name = Some h" and "linked_at h = None"
  shows "raw_write amb name data w = (length data, w)"
  using assms
  by (simp add: raw_write_def taken_all Let_def)

lemma flush_linked:
  assumes "os_accepts_all amb"
    and "open_files w name = Some \<lparr>linked_at = Some p, file_buffer = b\<rparr>"
    and "fs w p = Some (File d)"
  shows "flush_buffer amb name w
    = (Inr (), w\<lparr>fs := (fs w)(p \<mapsto> File (d @ b)),
                  open_files := (open_files w)(name \<mapsto> \<lparr>linked_at = Some p, file_buffer = []\<rparr>)\<rparr>)"
  using assms raw_write_linked[OF assms(1) assms(2) _ assms(3), of b]
  by (simp add: flush_buffer_def)

lemma flush_unlinked:
  assumes "os_accepts_all amb"
    and "open_files w name = Some \<lparr>linked_at = None, file_buffer = b\<rparr>"
  shows "flush_buffer amb name w
    = (Inr (), w\<lparr>open_files := (open_files w)(name \<mapsto> \<lparr>linked_at = None, file_buffer = []\<rparr>)\<rparr>)"
  using assms raw_write_unlinked[OF assms(1) assms(2), of b]
  by (simp add: flush_buffer_def)

lemma file_write_effect:
  assumes acc: "os_accepts_all amb"
    and h: "open_files w f = Some \<lparr>linked_at = Some p, file_buffer = b\<rparr>"
    and d: "fs w p = Some (File d)"
  shows "file_write amb f c w
    = (Inr (),
       w\<lparr>fs := (fs w)(p \<mapsto> File (fst (after_writes (buffer_size amb) (d, b) [c]))),
         trace := trace w @ [FileWrite f c],
         open_files := (open_files w)(f \<mapsto>
           \<lparr>linked_at = Some p, file_buffer = snd (after_writes (buffer_size amb) (d, b) [c])\<rparr>)\<rparr>)"
proof -
  let ?w0 = "w\<lparr>trace := trace w @ [FileWrite f c]\<rparr>"
  have h0: "open_files ?w0 f = Some \<lparr>linked_at = Some p, file_buffer = b\<rparr>"
    and d0: "fs ?w0 p = Some (File d)"
    using h d by simp_all
  have idem: "(fs w)(p \<mapsto> File d) = fs w"
    using d by (simp add: fun_upd_idem)
  consider (fits) "length b + length c \<le> buffer_size amb"
    | (big) "\<not> length b + length c \<le> buffer_size amb" "buffer_size amb < length c"
    | (small) "\<not> length b + length c \<le> buffer_size amb" "\<not> buffer_size amb < length c"
    by blast
  then show ?thesis
  proof cases
    case fits
    then show ?thesis
      using h by (simp add: file_write_def bnd_def emit_def idem)
  next
    case big
    let ?w1 = "?w0\<lparr>fs := (fs ?w0)(p \<mapsto> File (d @ b)),
                  open_files := (open_files ?w0)(f \<mapsto> \<lparr>linked_at = Some p, file_buffer = []\<rparr>)\<rparr>"
    have fl: "flush_buffer amb f ?w0 = (Inr (), ?w1)"
      by (rule flush_linked[OF acc h0 d0])
    have rw: "raw_write amb f c ?w1 = (length c, ?w1\<lparr>fs := (fs ?w1)(p \<mapsto> File ((d @ b) @ c))\<rparr>)"
      using raw_write_linked[OF acc, of ?w1 f "\<lparr>linked_at = Some p, file_buffer = []\<rparr>" p "d @ b" c]
      by simp
    show ?thesis
      using big h fl rw by (simp add: file_write_def bnd_def emit_def)
  next
    case small
    let ?w1 = "?w0\<lparr>fs := (fs ?w0)(p \<mapsto> File (d @ b)),
                  open_files := (open_files ?w0)(f \<mapsto> \<lparr>linked_at = Some p, file_buffer = []\<rparr>)\<rparr>"
    have fl: "flush_buffer amb f ?w0 = (Inr (), ?w1)"
      by (rule flush_linked[OF acc h0 d0])
    show ?thesis
      using small h fl by (simp add: file_write_def bnd_def emit_def)
  qed
qed

lemma after_writes_step:
  "after_writes bs s (c # cs) = after_writes bs (after_writes bs s [c]) cs"
  by (cases s) simp

lemma write_chunks_effect:
  assumes acc: "os_accepts_all amb"
  shows "open_files w f = Some \<lparr>linked_at = Some p, file_buffer = b\<rparr> \<Longrightarrow>
    fs w p = Some (File d) \<Longrightarrow>
    write_chunks amb f sz cs w
    = (Inr (sz + length (concat cs)),
       w\<lparr>fs := (fs w)(p \<mapsto> File (fst (after_writes (buffer_size amb) (d, b) cs))),
         trace := trace w @ map (FileWrite f) cs,
         open_files := (open_files w)(f \<mapsto>
           \<lparr>linked_at = Some p,
            file_buffer = snd (after_writes (buffer_size amb) (d, b) cs)\<rparr>)\<rparr>)"
proof (induction cs arbitrary: w sz d b)
  case Nil
  then have "(fs w)(p \<mapsto> File d) = fs w"
    and "(open_files w)(f \<mapsto> \<lparr>linked_at = Some p, file_buffer = b\<rparr>) = open_files w"
    by (simp_all add: fun_upd_idem)
  then show ?case
    by (simp add: ret_def)
next
  case (Cons c cs)
  obtain d1 b1 where s1: "after_writes (buffer_size amb) (d, b) [c] = (d1, b1)"
    by (cases "after_writes (buffer_size amb) (d, b) [c]") blast
  let ?w1 = "w\<lparr>fs := (fs w)(p \<mapsto> File d1),
               trace := trace w @ [FileWrite f c],
               open_files := (open_files w)(f \<mapsto> \<lparr>linked_at = Some p, file_buffer = b1\<rparr>)\<rparr>"
  have fw: "file_write amb f c w = (Inr (), ?w1)"
    using file_write_effect[OF acc Cons.prems, of c, unfolded s1 fst_conv snd_conv] .
  have h1: "open_files ?w1 f = Some \<lparr>linked_at = Some p, file_buffer = b1\<rparr>"
    and f1: "fs ?w1 p = Some (File d1)"
    by simp_all
  have rest: "after_writes (buffer_size amb) (d, b) (c # cs)
      = after_writes (buffer_size amb) (d1, b1) cs"
    using after_writes_step[of "buffer_size amb" "(d, b)" c cs] by (simp only: s1)
  have eq: "?w1\<lparr>fs := (fs ?w1)(p \<mapsto> File (fst (after_writes (buffer_size amb) (d1, b1) cs))),
         trace := trace ?w1 @ map (FileWrite f) cs,
         open_files := (open_files ?w1)(f \<mapsto>
           \<lparr>linked_at = Some p,
            file_buffer = snd (after_writes (buffer_size amb) (d1, b1) cs)\<rparr>)\<rparr>
      = w\<lparr>fs := (fs w)(p \<mapsto> File (fst (after_writes (buffer_size amb) (d1, b1) cs))),
         trace := trace w @ map (FileWrite f) (c # cs),
         open_files := (open_files w)(f \<mapsto>
           \<lparr>linked_at = Some p,
            file_buffer = snd (after_writes (buffer_size amb) (d1, b1) cs)\<rparr>)\<rparr>"
    by simp
  have "write_chunks amb f sz (c # cs) w = write_chunks amb f (sz + length c) cs ?w1"
    by (simp add: bnd_def fw)
  also note Cons.IH[OF h1 f1, of "sz + length c"]
  finally show ?case
    unfolding eq rest by (simp add: add.assoc fun_upd_def)
qed

lemma consume_effect:
  assumes acc: "os_accepts_all amb"
    and "open_files w f = Some \<lparr>linked_at = Some f, file_buffer = []\<rparr>"
    and "fs w f = Some (File [])"
  shows "consume amb f data w
    = ((case failure data of None \<Rightarrow> Inr (length (concat (chunks data))) | Some e \<Rightarrow> Inl e),
       w\<lparr>fs := (fs w)(f \<mapsto> File (fst (after_writes (buffer_size amb) ([], []) (chunks data)))),
         trace := trace w @ map (FileWrite f) (chunks data),
         open_files := (open_files w)(f \<mapsto>
           \<lparr>linked_at = Some f,
            file_buffer = snd (after_writes (buffer_size amb) ([], []) (chunks data))\<rparr>)\<rparr>)"
  using write_chunks_effect[OF acc assms(2,3), of 0 "chunks data"]
  by (simp add: consume_def bnd_def ret_def raise_def split: option.splits)

lemma if_upd_twice:
  "(\<lambda>a. if a = f then X else if a = f then Y else g a) = (\<lambda>a. if a = f then X else g a)"
  by auto

lemma close_unlinked:
  assumes "os_accepts_all amb"
    and "open_files w name = Some \<lparr>linked_at = None, file_buffer = b\<rparr>"
  shows "file_close amb name w = (Inr (), w\<lparr>open_files := (open_files w)(name := None)\<rparr>)"
  using flush_unlinked[OF assms] by (simp add: file_close_def)


text \<open>The body of the download when the transfer raises, on a freshly created file.\<close>

lemma download_body_stream_fails:
  assumes acc: "os_accepts_all amb"
    and h: "open_files w f = Some \<lparr>linked_at = Some f, file_buffer = []\<rparr>"
    and d: "fs w f = Some (File [])"
    and ga: "get_archive (container_of self) src (cont w) = (r, s2)"
    and sr: "stream_raises r"
  shows "CacheSave_download_body amb self src dst f w
    = (Inr None,
       w\<lparr>fs := (fs w)(f := None),
         cont := s2,
         trace := trace w @
           [Log DEBUG (''Downloading cache folder '' @ [CHR 0x27] @ src @ [CHR 0x27]
               @ '' to '' @ [CHR 0x27] @ f @ [CHR 0x27]) [],
            GetArchive src]
           @ map (FileWrite f) (stream_chunks r)
           @ [Log ERROR (''Error getting cache from container: '' @ cache_name self
                 @ '': '' @ exn_str (stream_error r)) [],
              Unlink f],
         open_files := unlink_handles f ((open_files w)(f \<mapsto>
           \<lparr>linked_at = Some f,
            file_buffer = snd (after_writes (buffer_size amb) ([], []) (stream_chunks r))\<rparr>))\<rparr>)"
proof (cases r)
  case (Inl e)
  have "(open_files w)(f \<mapsto> \<lparr>linked_at = Some f, file_buffer = []\<rparr>) = open_files w"
    using h by (simp add: fun_upd_idem)
  then show ?thesis
    using Inl ga d
    by (simp add: CacheSave_download_body_def prog_defs call_get_archive_def os_unlink_def
        stream_chunks_def stream_error_def)
next
  case (Inr data)
  then obtain e where e: "failure data = Some e"
    using sr by (auto simp: stream_raises_def)
  let ?w1 = "w\<lparr>cont := s2, trace := trace w @
      [Log DEBUG (''Downloading cache folder '' @ [CHR 0x27] @ src @ [CHR 0x27]
               @ '' to '' @ [CHR 0x27] @ f @ [CHR 0x27]) [], GetArchive src]\<rparr>"
  have h1: "open_files ?w1 f = Some \<lparr>linked_at = Some f, file_buffer = []\<rparr>"
    and d1: "fs ?w1 f = Some (File [])"
    using h d by simp_all
  note c = consume_effect[OF acc h1 d1, of data]
  show ?thesis
    using Inr e ga
    apply (simp add: CacheSave_download_body_def prog_defs call_get_archive_def
        stream_chunks_def stream_error_def)
    apply (simp add: c[unfolded prog_defs, simplified] os_unlink_def)
    apply (simp add: fun_upd_def if_upd_twice ret_def)
    done
qed

lemma logger_apply:
  "logger l fmt as w = (Inr (), w\<lparr>trace := trace w @ [Log l fmt as]\<rparr>)"
  by (simp add: logger_def emit_def)

lemma ret_apply: "ret x w = (Inr x, w)"
  by (simp add: ret_def)

lemma unlink_handles_closed:
  "(unlink_handles t (files(t \<mapsto> h)))(t := None) = (unlink_handles t files)(t := None)"
  by (rule ext) (simp add: unlink_handles_def)

lemma download_start:
  assumes "path_exists (container_of self) src (cont w) = (True, s1)"
  shows "CacheSave_download amb self src dst w
    = bnd (with_exit (CacheSave_download_body amb self src dst (download_temp amb w))
             (file_close amb (download_temp amb w)))
        (\<lambda>r. case r of
           None \<Rightarrow> ret ()
         | Some size' \<Rightarrow> logger INFO ''Cache '%s': Downloaded %s in %.3fs''
             [Str (cache_name self), HumanSize size', Elapsed])
        (w\<lparr>cont := s1,
           fs := (fs w)(download_temp amb w \<mapsto> File []),
           trace := trace w @
             [PathExists src,
              Log INFO ''Cache '%s': Downloading'' [Str (cache_name self)],
              TempCreate (download_temp amb w)],
           open_files := (open_files w)(download_temp amb w \<mapsto>
             \<lparr>linked_at = Some (download_temp amb w), file_buffer = []\<rparr>)\<rparr>)"
  using assms
  by (simp add: CacheSave_download_def call_path_exists_def named_temporary_file_def
      download_temp_def logger_apply bnd_def Let_def)

lemma download_stream_fails:
  assumes acc: "os_accepts_all amb"
    and pe: "path_exists (container_of self) src (cont w) = (True, s1)"
    and ga: "get_archive (container_of self) src s1 = (r, s2)"
    and sr: "stream_raises r"
  shows "CacheSave_download amb self src dst w
    = (Inr (),
       w\<lparr>fs := (fs w)(download_temp amb w := None),
         cont := s2,
         trace := trace w @
           [PathExists src,
            Log INFO ''Cache '%s': Downloading'' [Str (cache_name self)],
            TempCreate (download_temp amb w),
            Log DEBUG (''Downloading cache folder '' @ [CHR 0x27] @ src @ [CHR 0x27]
               @ '' to '' @ [CHR 0x27] @ download_temp amb w @ [CHR 0x27]) [],
            GetArchive src]
           @ map (FileWrite (download_temp amb w)) (stream_chunks r)
           @ [Log ERROR (''Error getting cache from container: '' @ cache_name self
                 @ '': '' @ exn_str (stream_error r)) [],
              Unlink (download_temp amb w)],
         open_files := (unlink_handles (download_temp amb w) (open_files w))
                         (download_temp amb w := None)\<rparr>)"
proof -
  let ?t = "download_temp amb w"
  let ?wt = "w\<lparr>cont := s1, fs := (fs w)(?t \<mapsto> File []),
      trace := trace w @ [PathExists src,
          Log INFO ''Cache '%s': Downloading'' [Str (cache_name self)], TempCreate ?t],
      open_files := (open_files w)(?t \<mapsto> \<lparr>linked_at = Some ?t, file_buffer = []\<rparr>)\<rparr>"
  have h: "open_files ?wt ?t = Some \<lparr>linked_at = Some ?t, file_buffer = []\<rparr>"
    and d: "fs ?wt ?t = Some (File [])"
    and ga': "get_archive (container_of self) src (cont ?wt) = (r, s2)"
    using ga by simp_all
  note b = download_body_stream_fails[OF acc h d ga' sr, of dst]
  define wb where "wb = snd (CacheSave_download_body amb self src dst ?t ?wt)"
  have b': "CacheSave_download_body amb self src dst ?t ?wt = (Inr None, wb)"
    unfolding wb_def b by simp
  have hb: "open_files wb ?t = Some \<lparr>linked_at = None,
      file_buffer = snd (after_writes (buffer_size amb) ([], []) (stream_chunks r))\<rparr>"
    unfolding wb_def b by (simp add: unlink_handles_def)
  note c = close_unlinked[OF acc hb]
  have "CacheSave_download amb self src dst w
      = (Inr (), wb\<lparr>open_files := (open_files wb)(?t := None)\<rparr>)"
    unfolding download_start[OF pe]
    by (simp add: bnd_def with_exit_def b' c ret_apply)
  also have "wb\<lparr>open_files := (open_files wb)(?t := None)\<rparr>
      = w\<lparr>fs := (fs w)(?t := None), cont := s2,
         trace := trace w @
           [PathExists src,
            Log INFO ''Cache '%s': Downloading'' [Str (cache_name self)],
            TempCreate ?t,
            Log DEBUG (''Downloading cache folder '' @ [CHR 0x27] @ src @ [CHR 0x27]
               @ '' to '' @ [CHR 0x27] @ ?t @ [CHR 0x27]) [],
            GetArchive src]
           @ map (FileWrite ?t) (stream_chunks r)
           @ [Log ERROR (''Error getting cache from container: '' @ cache_name self
                 @ '': '' @ exn_str (stream_error r)) [],
              Unlink ?t],
         open_files := (unlink_handles ?t (open_files w))(?t := None)\<rparr>"
    unfolding wb_def b by (simp add: unlink_handles_closed)
  finally show ?thesis .
qed

subsection \<open>The rename and the close of the temporary file\<close>

lemmas ex_eval =
  CacheSave_save_def CacheSave_prepare_def CacheSave_download_def CacheSave_download_body_def
  with_exit_def file_close_def flush_buffer_def raw_write_def file_write_def consume_def
  named_temporary_file_def os_rename_def os_unlink_def is_directory_def prog_defs
  call_path_exists_def call_get_archive_def call_run_command_def
  ex_full_disk_ambient_def ex_small_buffer_ambient_def ex_ambient_def ex_strategy_def
  ex_container_def ex_broken_container_def ex_stream_def ex_broken_stream_def ex_world_def
  ex_definitions_def get_local_cache_archive_path_def get_remote_temp_directory_def
  sanitize_remote_path_def prepare_cache_cmd_def os_path_join_def os_path_dirname_def
  rename_handles_def unlink_handles_def Let_def file_content_def

text \<open>
  C3 (the code diverges from the claim). \<open>_download\<close> calls \<open>os.rename\<close> inside the
  \<open>with\<close> block, before the file object is closed. For the cache \<open>pip\<close>, a previous archive
  \<open>old\<close> at \<open>/cache/pip.tar\<close> and a stream of the chunks \<open>ab\<close> and \<open>c\<close> that ends without
  error: when the body of the block ends on a healthy disk, the final path holds an empty
  file and the three bytes are still in the buffer of the file object; on a full disk
  the save ends with the rename, the previous archive is replaced by the empty file and
  the close raises \<open>OSError\<close> out of \<open>save\<close>. With a buffer of two bytes on the full disk
  the second write raises while the archive is streamed: the handler logs the error and
  unlinks the temporary file, and the close raises again, so that \<open>save\<close> does not return
  normally.
\<close>

theorem rename_precedes_close:
  "(let f = ''/cache/tmpq1w2e3r4'';
        w = snd (CacheSave_download_body ex_ambient (ex_strategy ex_container ''pip'')
                   ''/tmp/caches/pip'' ''/cache/pip.tar'' f
                   (snd (named_temporary_file ex_ambient ''/cache'' ex_world)))
    in fs w ''/cache/pip.tar'' = Some (File [])
     \<and> open_files w f = Some \<lparr>linked_at = Some ''/cache/pip.tar'', file_buffer = ''abc''\<rparr>)
   \<and> (let r = CacheSave_save ex_full_disk_ambient (ex_strategy ex_container ''pip'') ex_world
      in fst r = Inl (OSError ''No space left on device'')
       \<and> fs ex_world ''/cache/pip.tar'' = Some (File ''old'')
       \<and> fs (snd r) ''/cache/pip.tar'' = Some (File [])
       \<and> last (trace (snd r)) = Rename ''/cache/tmpq1w2e3r4'' ''/cache/pip.tar'')
   \<and> (let r = CacheSave_save ex_small_buffer_ambient (ex_strategy ex_container ''pip'') ex_world
      in fst r = Inl (OSError ''No space left on device'')
       \<and> fs (snd r) ''/cache/tmpq1w2e3r4'' = None
       \<and> fs (snd r) ''/cache/pip.tar'' = Some (File ''old'')
       \<and> last (butlast (trace (snd r)))
         = Log ERROR ''Error getting cache from container: pip: No space left on device'' []
       \<and> last (trace (snd r)) = Unlink ''/cache/tmpq1w2e3r4'')"
  by (simp add: ex_eval)

text \<open>
  The same close is why the save of a stream that breaks is stated below for a disk that
  takes every write: on the full disk with the buffer of two bytes, the stream that
  breaks after \<open>ab\<close> is caught and logged, and the close of the unlinked file raises out
  of \<open>save\<close>.
\<close>

lemma broken_stream_on_full_disk:
  "fst (CacheSave_save ex_small_buffer_ambient (ex_strategy ex_broken_container ''pip'')
         ex_world) = Inl (OSError ''No space left on device'')
   \<and> last (butlast (trace (snd (CacheSave_save ex_small_buffer_ambient
         (ex_strategy ex_broken_container ''pip'') ex_world))))
     = Log ERROR ''Error getting cache from container: pip: connection reset'' []"
  by (simp add: ex_eval)

lemma save_after_prepare:
  "CacheSave_prepare amb self w0 = (Inr src, w) \<Longrightarrow>
   CacheSave_save amb self w0
   = CacheSave_download amb self src (get_local_cache_archive_path amb (cache_name self)) w"
  by (simp add: CacheSave_save_def bnd_def)

subsection \<open>The two loops of the manager\<close>

lemma upload_append:
  "CacheManager_upload amb m (xs @ ys) w
   = bnd (CacheManager_upload amb m xs) (\<lambda>_. CacheManager_upload amb m ys) w"
proof (induction xs arbitrary: w)
  case Nil
  show ?case by (simp add: bnd_def ret_def)
next
  case (Cons x xs)
  show ?case
    by (simp add: bnd_def Cons.IH split: prod.splits sum.splits)
qed

lemma download_append:
  "CacheManager_download amb m (xs @ ys) w
   = bnd (CacheManager_download amb m xs) (\<lambda>_. CacheManager_download amb m ys) w"
proof (induction xs arbitrary: w)
  case Nil
  show ?case by (simp add: bnd_def ret_def)
next
  case (Cons x xs)
  show ?case
    by (simp add: bnd_def Cons.IH split: prod.splits sum.splits)
qed

lemma prepare_command_fails:
  assumes "cache_definitions self (cache_name self) = Some d"
    and "run_command (container_of self)
           (prepare_cache_cmd (sanitize_remote_path (cache_path d))
              (get_remote_temp_directory amb (cache_name self))) (cont w) = ((code, Utf8 out), s1)"
    and "code \<noteq> 0"
  shows "CacheSave_prepare amb self w
         = (Inl (Exception (''Error preparing cache: '' @ cache_name self @ '': '' @ out)),
            w\<lparr>cont := s1,
              trace := trace w @
                [Log INFO ''Cache '%s': Preparing'' [Str (cache_name self)],
                 RunCommand (prepare_cache_cmd (sanitize_remote_path (cache_path d))
                    (get_remote_temp_directory amb (cache_name self)))]\<rparr>)"
  using assms
  by (simp add: CacheSave_prepare_def prog_defs call_run_command_def Let_def)

lemma generic_save:
  "n \<noteq> ''docker'' \<Longrightarrow>
   save amb (CacheSaveFactory_get c n d)
   = CacheSave_save amb \<lparr>container_of = c, cache_name = n, cache_definitions = d\<rparr>"
  by (simp add: CacheSaveFactory_get_def)

text \<open>
  C1 (as amended). Neither loop of the manager has a handler. \<open>upload\<close> stops at the first
  name whose restore raises: the error and the world of that moment are the result,
  whatever names follow. \<open>download\<close> stops in the same way at the first name whose save
  raises, and the generic save raises when the prepare command exits with a non-zero
  code. What the generic save catches is an exception of the transfer (\<open>get_archive\<close> or
  the iteration of its chunks): on a disk that takes every write it is logged, save
  returns normally, and \<open>download\<close> goes on with the names that follow.
\<close>

theorem batch_error_policies:
  "(CacheManager_upload amb m pre w = (Inr (), w1)
    \<and> restore amb (CacheRestoreFactory_get (manager_container m) n
          (manager_cache_definitions m)) w1 = (Inl e, w2)
    \<longrightarrow> CacheManager_upload amb m (pre @ n # post) w = (Inl e, w2))
   \<and> (CacheManager_download amb m pre w = (Inr (), w1)
    \<and> save amb (CacheSaveFactory_get (manager_container m) n
          (manager_cache_definitions m)) w1 = (Inl e, w2)
    \<longrightarrow> CacheManager_download amb m (pre @ n # post) w = (Inl e, w2))
   \<and> (n \<noteq> ''docker''
    \<and> manager_cache_definitions m n = Some d
    \<and> run_command (manager_container m)
         (prepare_cache_cmd (sanitize_remote_path (cache_path d))
            (get_remote_temp_directory amb n)) (cont w) = ((code, Utf8 out), s1)
    \<and> code \<noteq> 0
    \<longrightarrow> fst (save amb (CacheSaveFactory_get (manager_container m) n
               (manager_cache_definitions m)) w)
        = Inl (Exception (''Error preparing cache: '' @ n @ '': '' @ out)))
   \<and> (os_accepts_all amb
    \<and> n \<noteq> ''docker''
    \<and> CacheSave_prepare amb
         \<lparr>container_of = manager_container m, cache_name = n,
          cache_definitions = manager_cache_definitions m\<rparr> w = (Inr src, w1)
    \<and> path_exists (manager_container m) src (cont w1) = (True, s1)
    \<and> get_archive (manager_container m) src s1 = (r, s2)
    \<and> stream_raises r
    \<longrightarrow> fst (save amb (CacheSaveFactory_get (manager_container m) n
               (manager_cache_definitions m)) w) = Inr ()
      \<and> last (butlast (trace (snd (save amb (CacheSaveFactory_get (manager_container m) n
               (manager_cache_definitions m)) w))))
        = Log ERROR (''Error getting cache from container: '' @ n @ '': ''
                       @ exn_str (stream_error r)) []
      \<and> CacheManager_download amb m (n # post) w
        = CacheManager_download amb m post
            (snd (save amb (CacheSaveFactory_get (manager_container m) n
               (manager_cache_definitions m)) w)))"
proof (intro conjI impI; (elim conjE)?)
  let ?c = "manager_container m" and ?d = "manager_cache_definitions m"
  let ?self = "\<lparr>container_of = ?c, cache_name = n, cache_definitions = ?d\<rparr>"
  {
    assume "CacheManager_upload amb m pre w = (Inr (), w1)"
      and "restore amb (CacheRestoreFactory_get ?c n ?d) w1 = (Inl e, w2)"
    then show "CacheManager_upload amb m (pre @ n # post) w = (Inl e, w2)"
      by (simp add: upload_append bnd_def)
  }
  {
    assume "CacheManager_download amb m pre w = (Inr (), w1)"
      and "save amb (CacheSaveFactory_get ?c n ?d) w1 = (Inl e, w2)"
    then show "CacheManager_download amb m (pre @ n # post) w = (Inl e, w2)"
      by (simp add: download_append bnd_def)
  }
  {
    assume nd: "n \<noteq> ''docker''"
    note g = generic_save[OF nd, of amb ?c ?d]
    {
      assume "?d n = Some d"
        and "run_command ?c (prepare_cache_cmd (sanitize_remote_path (cache_path d))
              (get_remote_temp_directory amb n)) (cont w) = ((code, Utf8 out), s1)"
        and "code \<noteq> 0"
      from prepare_command_fails[of ?self d amb w code out s1] this
      show "fst (save amb (CacheSaveFactory_get ?c n ?d) w)
          = Inl (Exception (''Error preparing cache: '' @ n @ '': '' @ out))"
        by (simp add: g CacheSave_save_def bnd_def)
    }
    {
      assume acc: "os_accepts_all amb"
        and p: "CacheSave_prepare amb ?self w = (Inr src, w1)"
        and pe: "path_exists ?c src (cont w1) = (True, s1)"
        and ga: "get_archive ?c src s1 = (r, s2)"
        and sr: "stream_raises r"
      have s: "save amb (CacheSaveFactory_get ?c n ?d) w
          = CacheSave_download amb ?self src (get_local_cache_archive_path amb n) w1"
        using save_after_prepare[OF p] by (simp add: g)
      note e = download_stream_fails[of amb ?self src w1 s1 r s2
          "get_local_cache_archive_path amb n"]
      have e': "save amb (CacheSaveFactory_get ?c n ?d) w
          = (Inr (), snd (save amb (CacheSaveFactory_get ?c n ?d) w))"
        unfolding s using e acc pe ga sr by simp
      show "fst (save amb (CacheSaveFactory_get ?c n ?d) w) = Inr ()"
        using e' by (metis fst_conv)
      show "last (butlast (trace (snd (save amb (CacheSaveFactory_get ?c n ?d) w))))
          = Log ERROR (''Error getting cache from container: '' @ n @ '': ''
                       @ exn_str (stream_error r)) []"
        unfolding s using e acc pe ga sr by (simp add: butlast_append)
      from e' obtain w' where sv: "save amb (CacheSaveFactory_get ?c n ?d) w = (Inr (), w')"
        by blast
      show "CacheManager_download amb m (n # post) w
          = CacheManager_download amb m post (snd (save amb (CacheSaveFactory_get ?c n ?d) w))"
        by (simp add: bnd_def sv)
    }
  }
qed

lemma ex_save_paths:
  \<open>prepare_cache_cmd (sanitize_remote_path ''~/.cache/pip'') ''/tmp/caches/pip''
   = ''if [ -e "$HOME/.cache/pip" ]; then mv "$HOME/.cache/pip" "/tmp/caches/pip"; fi''\<close>
  by (simp add: prepare_cache_cmd_def sanitize_remote_path_def)

lemma ex_manager_fields:
  "manager_container (ex_manager c) = c"
  "manager_cache_definitions (ex_manager c) = ex_definitions"
  "ex_definitions ''pip'' = Some \<lparr>cache_path = ''~/.cache/pip''\<rparr>"
  by (simp_all add: ex_manager_def CacheManager_init_def ex_definitions_def)

lemma ex_failed_prepare:
  "CacheSave_prepare ex_ambient
     \<lparr>container_of = ex_failing_container, cache_name = ''pip'',
      cache_definitions = ex_definitions\<rparr> ex_world
   = (Inl (Exception ''Error preparing cache: pip: boom''),
      ex_world\<lparr>cont := (),
        trace := trace ex_world @
          [Log INFO ''Cache '%s': Preparing'' [Str ''pip''],
           RunCommand (prepare_cache_cmd (sanitize_remote_path ''~/.cache/pip'')
              ''/tmp/caches/pip'')]\<rparr>)"
  using prepare_command_fails[of
      "\<lparr>container_of = ex_failing_container, cache_name = ''pip'',
        cache_definitions = ex_definitions\<rparr>"
      "\<lparr>cache_path = ''~/.cache/pip''\<rparr>" ex_ambient ex_world 1 "''boom''" "()"]
  by (simp add: ex_manager_fields ex_paths ex_failing_container_def ex_container_def)

lemma ex_failed_save:
  "save ex_ambient (CacheSaveFactory_get ex_failing_container ''pip'' ex_definitions) ex_world
   = (Inl (Exception ''Error preparing cache: pip: boom''),
      ex_world\<lparr>cont := (),
        trace := trace ex_world @
          [Log INFO ''Cache '%s': Preparing'' [Str ''pip''],
           RunCommand (prepare_cache_cmd (sanitize_remote_path ''~/.cache/pip'')
              ''/tmp/caches/pip'')]\<rparr>)"
  by (simp add: generic_save CacheSave_save_def bnd_def ex_failed_prepare)

theorem batch_error_policies_witness:
  "fst (CacheManager_upload ex_ambient (ex_manager ex_failing_container) [''pip'', ''npm'']
          ex_world)
     = Inl (Exception ''Error uploading cache: pip'')
   \<and> fst (CacheManager_download ex_ambient (ex_manager ex_failing_container) [''pip'', ''npm'']
          ex_world)
     = Inl (Exception ''Error preparing cache: pip: boom'')
   \<and> fst (save ex_ambient (CacheSaveFactory_get ex_failing_container ''pip'' ex_definitions)
          ex_world)
     = Inl (Exception ''Error preparing cache: pip: boom'')
   \<and> fst (save ex_ambient (CacheSaveFactory_get ex_broken_container ''pip'' ex_definitions)
          ex_world) = Inr ()
   \<and> CacheManager_download ex_ambient (ex_manager ex_broken_container) [''pip'', ''npm'']
        ex_world
     = CacheManager_download ex_ambient (ex_manager ex_broken_container) [''npm'']
         (snd (save ex_ambient (CacheSaveFactory_get ex_broken_container ''pip'' ex_definitions)
            ex_world))"
proof -
  let ?mf = "ex_manager ex_failing_container" and ?mb = "ex_manager ex_broken_container"
  let ?sb = "\<lparr>container_of = ex_broken_container, cache_name = ''pip'',
              cache_definitions = ex_definitions\<rparr>"
  let ?w2 = "snd (restore ex_ambient (CacheRestoreFactory_get ex_failing_container ''pip''
                ex_definitions) ex_world)"
  let ?w3 = "snd (save ex_ambient (CacheSaveFactory_get ex_failing_container ''pip''
                ex_definitions) ex_world)"
  let ?w1 = "snd (CacheSave_prepare ex_ambient ?sb ex_world)"
  have nd: "''pip'' \<noteq> ''docker''"
    by simp
  have r: "restore ex_ambient (CacheRestoreFactory_get ex_failing_container ''pip''
              ex_definitions) ex_world = (Inl (Exception ''Error uploading cache: pip''), ?w2)"
    using upload_command_fails[of ex_world "''/cache/pip.tar''" "File ''old''"
        "ex_strategy ex_failing_container ''pip''" ex_ambient 1 "''boom''" "()"]
      restore_with_archive[of ex_world ex_ambient "ex_strategy ex_failing_container ''pip''"
        "File ''old''"]
    by (simp add: CacheRestoreFactory_get_def ex_paths ex_strategy_def ex_failing_container_def
        ex_container_def ex_world_def bnd_def)
  have s: "save ex_ambient (CacheSaveFactory_get ex_failing_container ''pip'' ex_definitions)
              ex_world = (Inl (Exception ''Error preparing cache: pip: boom''), ?w3)"
    by (simp add: ex_failed_save)
  have rc: "run_command ex_failing_container
         (prepare_cache_cmd (sanitize_remote_path ''~/.cache/pip'') ''/tmp/caches/pip'')
         (cont ex_world) = ((1, Utf8 ''boom''), ())"
    by (simp add: ex_failing_container_def ex_container_def)
  have pr: "CacheSave_prepare ex_ambient ?sb ex_world = (Inr ''/tmp/caches/pip'', ?w1)"
    using prepare_ok[of ?sb "\<lparr>cache_path = ''~/.cache/pip''\<rparr>" ex_ambient ex_world "Utf8 []" "()"]
    by (simp add: ex_manager_fields ex_broken_container_def ex_container_def ex_paths)
  have pe: "path_exists ex_broken_container ''/tmp/caches/pip'' (cont ?w1) = (True, ())"
    and ga: "get_archive ex_broken_container ''/tmp/caches/pip'' () = (Inr ex_broken_stream, ())"
    by (simp_all add: ex_broken_container_def ex_container_def)
  have sr: "stream_raises (Inr ex_broken_stream)"
    by (simp add: stream_raises_def ex_broken_stream_def)
  have up0: "CacheManager_upload ex_ambient ?mf [] ex_world = (Inr (), ex_world)"
    and dn0: "CacheManager_download ex_ambient ?mf [] ex_world = (Inr (), ex_world)"
    by (simp_all add: ret_def)
  note T = batch_error_policies[where amb = ex_ambient and n = "''pip''" and w = ex_world
      and post = "[''npm'']"]
  have r': "restore ex_ambient (CacheRestoreFactory_get (manager_container ?mf) ''pip''
              (manager_cache_definitions ?mf)) ex_world
            = (Inl (Exception ''Error uploading cache: pip''), ?w2)"
    unfolding ex_manager_fields by (rule r)
  have s': "save ex_ambient (CacheSaveFactory_get (manager_container ?mf) ''pip''
              (manager_cache_definitions ?mf)) ex_world
            = (Inl (Exception ''Error preparing cache: pip: boom''), ?w3)"
    unfolding ex_manager_fields by (rule s)
  have "CacheManager_upload ex_ambient ?mf ([] @ ''pip'' # [''npm'']) ex_world
      = (Inl (Exception ''Error uploading cache: pip''), ?w2)"
    using T[where m = ?mf and pre = "[]", THEN conjunct1, THEN mp, OF conjI[OF up0 r']] .
  then have A: "fst (CacheManager_upload ex_ambient ?mf [''pip'', ''npm''] ex_world)
       = Inl (Exception ''Error uploading cache: pip'')"
    by (simp only: append_Nil fst_conv)
  have "CacheManager_download ex_ambient ?mf ([] @ ''pip'' # [''npm'']) ex_world
      = (Inl (Exception ''Error preparing cache: pip: boom''), ?w3)"
    using T[where m = ?mf and pre = "[]", THEN conjunct2, THEN conjunct1, THEN mp,
        OF conjI[OF dn0 s']] .
  then have B: "fst (CacheManager_download ex_ambient ?mf [''pip'', ''npm''] ex_world)
       = Inl (Exception ''Error preparing cache: pip: boom'')"
    by (simp only: append_Nil fst_conv)
  have d': "manager_cache_definitions ?mf ''pip'' = Some \<lparr>cache_path = ''~/.cache/pip''\<rparr>"
    by (simp add: ex_manager_fields)
  have rc': "run_command (manager_container ?mf)
         (prepare_cache_cmd (sanitize_remote_path (cache_path \<lparr>cache_path = ''~/.cache/pip''\<rparr>))
            (get_remote_temp_directory ex_ambient ''pip''))
         (cont ex_world) = ((1, Utf8 ''boom''), ())"
    using rc by (simp add: ex_manager_fields ex_paths)
  have one: "(1::int) \<noteq> 0"
    by simp
  have "fst (save ex_ambient (CacheSaveFactory_get (manager_container ?mf) ''pip''
       (manager_cache_definitions ?mf)) ex_world)
       = Inl (Exception (''Error preparing cache: '' @ ''pip'' @ '': '' @ ''boom''))"
    using T[where m = ?mf, THEN conjunct2, THEN conjunct2, THEN conjunct1, THEN mp,
        OF conjI[OF nd conjI[OF d' conjI[OF rc' one]]]] .
  then have C: "fst (save ex_ambient (CacheSaveFactory_get ex_failing_container ''pip''
       ex_definitions) ex_world) = Inl (Exception ''Error preparing cache: pip: boom'')"
    by (simp add: ex_manager_fields)
  have pr': "CacheSave_prepare ex_ambient
         \<lparr>container_of = manager_container ?mb, cache_name = ''pip'',
          cache_definitions = manager_cache_definitions ?mb\<rparr> ex_world
       = (Inr ''/tmp/caches/pip'', ?w1)"
    unfolding ex_manager_fields by (rule pr)
  have pe': "path_exists (manager_container ?mb) ''/tmp/caches/pip'' (cont ?w1) = (True, ())"
    and ga': "get_archive (manager_container ?mb) ''/tmp/caches/pip'' ()
       = (Inr ex_broken_stream, ())"
    unfolding ex_manager_fields by (rule pe, rule ga)
  have acc: "os_accepts_all ex_ambient"
    by (simp add: os_accepts_all_def ex_ambient_def)
  note F = T[where m = ?mb, THEN conjunct2, THEN conjunct2, THEN conjunct2, THEN mp,
        OF conjI[OF acc conjI[OF nd conjI[OF pr' conjI[OF pe' conjI[OF ga' sr]]]]]]
  have D: "fst (save ex_ambient (CacheSaveFactory_get ex_broken_container ''pip''
       ex_definitions) ex_world) = Inr ()"
    using F[THEN conjunct1] unfolding ex_manager_fields .
  have E: "CacheManager_download ex_ambient ?mb [''pip'', ''npm''] ex_world
     = CacheManager_download ex_ambient ?mb [''npm'']
         (snd (save ex_ambient (CacheSaveFactory_get ex_broken_container ''pip'' ex_definitions)
            ex_world))"
    using F[THEN conjunct2, THEN conjunct2] unfolding ex_manager_fields .
  show ?thesis
    using A B C D E by (intro conjI)
qed

text \<open>
  C1, as stated, fails for \<open>download\<close>: in a container whose prepare command exits with
  status 1, the save of \<open>pip\<close> raises, \<open>download\<close> raises with it, and the trace ends with
  that command: \<open>npm\<close> is never processed.
\<close>

theorem download_stops_at_failed_prepare:
  \<open>fst (CacheManager_download ex_ambient (ex_manager ex_failing_container) [''pip'', ''npm'']
          ex_world)
     = Inl (Exception ''Error preparing cache: pip: boom'')
   \<and> trace (snd (CacheManager_download ex_ambient (ex_manager ex_failing_container)
          [''pip'', ''npm''] ex_world))
     = [Log INFO ''Cache '%s': Preparing'' [Str ''pip''],
        RunCommand ''if [ -e "$HOME/.cache/pip" ]; then mv "$HOME/.cache/pip" "/tmp/caches/pip"; fi'']\<close>
  by (simp add: ex_manager_fields bnd_def ex_failed_save ex_save_paths) (simp add: ex_world_def)

subsection \<open>The container-image save\<close>













section \<open>Properties of the specification model\<close>

lemma collect_nth:
  "collect rs = Inr xs \<Longrightarrow>
   length xs = length rs \<and> (\<forall>i<length rs. rs ! i = Inr (xs ! i))"
proof (induction rs arbitrary: xs)
  case Nil
  then show ?case by simp
next
  case (Cons r rs)
  then obtain x ys where r: "r = Inr x" and ys: "collect rs = Inr ys" and xs: "xs = x # ys"
    by (cases r; cases "collect rs") auto
  from Cons.IH[OF ys] show ?case
    unfolding r xs by (auto simp: nth_Cons split: nat.splits)
qed

lemma parse_item_variables:
  assumes "parse_item ps d = Inr it"
  shows "is_variables it = (\<exists>kvs. d = DMap kvs \<and> discriminators kvs = [''variables''])"
proof (cases d)
  case (DMap kvs)
  show ?thesis
  proof (cases "discriminators kvs")
    case Nil
    with assms DMap show ?thesis by (simp add: parse_item_def)
  next
    case (Cons k ks)
    show ?thesis
    proof (cases ks)
      case Nil
      have "k \<in> set (discriminators kvs)"
        using Cons by simp
      then have k: "k = ''variables'' \<or> k = ''step'' \<or> k = ''parallel''"
        by (auto simp: discriminators_def)
      from assms DMap Cons Nil k show ?thesis
        by (auto simp: parse_item_def map_sum_def split: option.splits doc.splits sum.splits
            if_splits)
    next
      case (Cons k' ks')
      with assms DMap \<open>discriminators kvs = k # ks\<close> show ?thesis
        by (simp add: parse_item_def)
    qed
  qed
qed (use assms in \<open>simp_all add: parse_item_def\<close>)

lemma list_ex_tl_nth:
  "list_ex P (tl xs) = (\<exists>i. 0 < i \<and> i < length xs \<and> P (xs ! i))"
proof (cases xs)
  case Nil
  then show ?thesis by simp
next
  case (Cons x ys)
  have "list_ex P ys = (\<exists>j<length ys. P (ys ! j))"
    unfolding list_ex_iff by (metis in_set_conv_nth)
  also have "\<dots> = (\<exists>i. 0 < i \<and> i < length (x # ys) \<and> P ((x # ys) ! i))"
  proof
    assume "\<exists>j<length ys. P (ys ! j)"
    then obtain j where "j < length ys" "P (ys ! j)" by blast
    then have "0 < Suc j \<and> Suc j < length (x # ys) \<and> P ((x # ys) ! Suc j)" by simp
    then show "\<exists>i. 0 < i \<and> i < length (x # ys) \<and> P ((x # ys) ! i)" by blast
  next
    assume "\<exists>i. 0 < i \<and> i < length (x # ys) \<and> P ((x # ys) ! i)"
    then obtain i where i: "0 < i" "i < length (x # ys)" "P ((x # ys) ! i)" by blast
    then obtain j where "i = Suc j" by (cases i) auto
    with i show "\<exists>j<length ys. P (ys ! j)" by auto
  qed
  finally show ?thesis using Cons by simp
qed

text \<open>
  C7. When every element of a pipeline parses and no item of variables occurs at an
  index other than 0, the pipeline parses to the items of its elements, in their order.
  When every element parses and an item of variables occurs at some index other than 0,
  the result is the schema error with the message of the rule, which contains
  \<open>variables\<close> and \<open>first element\<close>; the result being an error, there is no pipeline. An
  item is of variables exactly when its element carries \<open>variables\<close> as its one
  discriminating key.
\<close>

theorem variables_first_rule:
  "(collect (map (parse_item ps) els) = Inr items \<and> \<not> list_ex is_variables (tl items)
     \<longrightarrow> parse_pipeline ps (DList els) = Inr items
       \<and> length items = length els
       \<and> (\<forall>i<length els. parse_item ps (els ! i) = Inr (items ! i)))
   \<and> (collect (map (parse_item ps) els) = Inr items
       \<and> 0 < i \<and> i < length items \<and> is_variables (items ! i)
     \<longrightarrow> parse_pipeline ps (DList els) = Inl (SchemaError variables_first_message))
   \<and> sublist ''variables'' variables_first_message
   \<and> sublist ''first element'' variables_first_message
   \<and> (parse_item ps d = Inr it
     \<longrightarrow> is_variables it = (\<exists>kvs. d = DMap kvs \<and> discriminators kvs = [''variables'']))"
proof (intro conjI impI)
  {
    assume h: "collect (map (parse_item ps) els) = Inr items \<and> \<not> list_ex is_variables (tl items)"
    then show "parse_pipeline ps (DList els) = Inr items"
      by (simp add: parse_pipeline_def)
    from h collect_nth[of "map (parse_item ps) els" items]
    show "length items = length els"
      and "\<forall>i<length els. parse_item ps (els ! i) = Inr (items ! i)"
      by auto
  }
  {
    assume h: "collect (map (parse_item ps) els) = Inr items
       \<and> 0 < i \<and> i < length items \<and> is_variables (items ! i)"
    then have "list_ex is_variables (tl items)"
      unfolding list_ex_tl_nth by blast
    with h show "parse_pipeline ps (DList els) = Inl (SchemaError variables_first_message)"
      by (simp add: parse_pipeline_def)
  }
  show "sublist ''variables'' variables_first_message"
    by code_simp
  show "sublist ''first element'' variables_first_message"
    by code_simp
  show "is_variables it = (\<exists>kvs. d = DMap kvs \<and> discriminators kvs = [''variables''])"
    if "parse_item ps d = Inr it"
    using that by (rule parse_item_variables)
qed

lemma ex_items:
  "parse_item Inr ex_variables_element
   = Inr (Variables [\<lparr>var_name = ''foo'', var_default = None\<rparr>,
                     \<lparr>var_name = ''bar'', var_default = None\<rparr>])"
  "parse_item Inr ex_step_element = Inr (StepWrapper ex_step_doc)"
  by (simp_all add: parse_item_def ex_variables_element_def ex_step_element_def
      discriminators_def parse_variable_def map_sum_def)

theorem variables_first_rule_witness:
  "parse_pipeline Inr (DList [ex_variables_element, ex_step_element])
     = Inr [Variables [\<lparr>var_name = ''foo'', var_default = None\<rparr>,
                       \<lparr>var_name = ''bar'', var_default = None\<rparr>],
            StepWrapper ex_step_doc]
   \<and> parse_pipeline Inr (DList [ex_step_element, ex_variables_element])
     = Inl (SchemaError variables_first_message)
   \<and> is_variables (Variables [\<lparr>var_name = ''foo'', var_default = None\<rparr>,
                               \<lparr>var_name = ''bar'', var_default = None\<rparr>] :: doc item)
     = (\<exists>kvs. ex_variables_element = DMap kvs \<and> discriminators kvs = [''variables''])"
proof -
  let ?v = "Variables [\<lparr>var_name = ''foo'', var_default = None\<rparr>,
                       \<lparr>var_name = ''bar'', var_default = None\<rparr>] :: doc item"
  let ?s = "StepWrapper ex_step_doc :: doc item"
  have a: "collect (map (parse_item Inr) [ex_variables_element, ex_step_element]) = Inr [?v, ?s]
      \<and> \<not> list_ex is_variables (tl [?v, ?s])"
    by (simp add: ex_items)
  have b: "collect (map (parse_item Inr) [ex_step_element, ex_variables_element]) = Inr [?s, ?v]
      \<and> 0 < (1::nat) \<and> 1 < length [?s, ?v] \<and> is_variables ([?s, ?v] ! 1)"
    by (simp add: ex_items)
  note A = variables_first_rule[where ps = Inr, THEN conjunct1, THEN mp, OF a, THEN conjunct1]
  note B = variables_first_rule[where ps = Inr, THEN conjunct2, THEN conjunct1, THEN mp, OF b]
  note C = variables_first_rule[where ps = Inr, THEN conjunct2, THEN conjunct2, THEN conjunct2,
      THEN conjunct2, THEN mp, OF ex_items(1)]
  show ?thesis
    using A B C by (intro conjI)
qed

subsection \<open>Expansion\<close>

lemma scan_bare:
  "list_all is_name_char n \<Longrightarrow>
   scan_in vars (Bare acc) n = resolve vars (acc @ n) (''$'' @ acc @ n)"
  by (induction n arbitrary: acc) simp_all

lemma scan_braced:
  "CHR ''}'' \<notin> set n \<Longrightarrow>
   scan_in vars (Braced acc) (n @ ''}'' @ rest)
   = resolve vars (acc @ n) (''${'' @ acc @ n @ ''}'') @ scan vars rest"
  by (induction n arbitrary: acc) auto

lemma name_char_not_brace: "is_name_char c \<Longrightarrow> c \<noteq> CHR ''{''"
  by (auto simp: is_name_char_def)

lemma expand_bare_token:
  assumes "vars n = Some v" and "n \<noteq> []" and "list_all is_name_char n"
  shows "expand_env_vars vars (''$'' @ n) = v"
proof -
  from assms(2) obtain c cs where n: "n = c # cs"
    by (cases n) auto
  with assms(3) have c: "is_name_char c" and cs: "list_all is_name_char cs"
    by simp_all
  show ?thesis
    using c name_char_not_brace[OF c] scan_bare[OF cs, of vars "[c]"] assms(1)
    by (simp add: expand_env_vars_def n resolve_def)
qed

lemma expand_braced_token:
  assumes "vars n = Some v" and "CHR ''}'' \<notin> set n"
  shows "expand_env_vars vars (''${'' @ n @ ''}'') = v"
  using scan_braced[OF assms(2), of vars "[]" "[]"] assms(1)
  by (simp add: expand_env_vars_def resolve_def)

text \<open>
  C8. Expansion of an image returns its name as it is, whatever tokens the name contains
  and whatever the mapping holds, and expands the username, the password, the email and
  the two AWS keys with the mapping. A \<open>$NAME\<close> or \<open>${NAME}\<close> token whose name is in the
  mapping expands to the value.
\<close>

theorem image_name_not_expanded:
  "image_name (expand_image vars img) = image_name img
   \<and> username (expand_image vars img) = map_option (expand_env_vars vars) (username img)
   \<and> password (expand_image vars img) = map_option (expand_env_vars vars) (password img)
   \<and> email (expand_image vars img) = map_option (expand_env_vars vars) (email img)
   \<and> map_option access_key_id (aws (expand_image vars img))
       = map_option (\<lambda>a. expand_env_vars vars (access_key_id a)) (aws img)
   \<and> map_option secret_access_key (aws (expand_image vars img))
       = map_option (\<lambda>a. expand_env_vars vars (secret_access_key a)) (aws img)
   \<and> run_as_user (expand_image vars img) = run_as_user img
   \<and> (vars n = Some v \<and> n \<noteq> [] \<and> list_all is_name_char n
      \<longrightarrow> expand_env_vars vars (''$'' @ n) = v)
   \<and> (vars n = Some v \<and> CHR ''}'' \<notin> set n
      \<longrightarrow> expand_env_vars vars (''${'' @ n @ ''}'') = v)
   \<and> (vars n = Some v \<and> CHR ''}'' \<notin> set n \<and> image_name img = ''${'' @ n @ ''}''
      \<longrightarrow> image_name (expand_image vars img) = ''${'' @ n @ ''}'')"
proof (intro conjI impI)
  show "expand_env_vars vars (''$'' @ n) = v"
    if "vars n = Some v \<and> n \<noteq> [] \<and> list_all is_name_char n"
    using that expand_bare_token[of vars n v] by blast
  show "expand_env_vars vars (''${'' @ n @ ''}'') = v"
    if "vars n = Some v \<and> CHR ''}'' \<notin> set n"
    using that expand_braced_token[of vars n v] by blast
qed (simp_all add: expand_image_def expand_aws_def option.map_comp comp_def)

theorem image_name_not_expanded_witness:
  "ex_env_vars ''IMAGE_NAME'' = Some ''alpine:latest''
   \<and> image_name (expand_image ex_env_vars ex_image_spec) = ''${IMAGE_NAME}''
   \<and> username (expand_image ex_env_vars ex_image_spec) = Some ''my-username''
   \<and> password (expand_image ex_env_vars ex_image_spec) = Some ''my-password''
   \<and> email (expand_image ex_env_vars ex_image_spec) = Some ''my-email''
   \<and> map_option access_key_id (aws (expand_image ex_env_vars ex_image_spec))
       = Some ''access-key-id''
   \<and> map_option secret_access_key (aws (expand_image ex_env_vars ex_image_spec))
       = Some ''secret-access-key''"
proof -
  note T = image_name_not_expanded[where vars = ex_env_vars and img = ex_image_spec]
  have v: "ex_env_vars ''IMAGE_NAME'' = Some ''alpine:latest''"
    by (simp add: ex_env_vars_def)
  have n: "ex_env_vars ''IMAGE_NAME'' = Some ''alpine:latest'' \<and> CHR ''}'' \<notin> set ''IMAGE_NAME''
      \<and> image_name ex_image_spec = ''${'' @ ''IMAGE_NAME'' @ ''}''"
    by (simp add: ex_env_vars_def ex_image_spec_def)
  have nm: "image_name (expand_image ex_env_vars ex_image_spec) = ''${IMAGE_NAME}''"
    using T[where n = "''IMAGE_NAME''" and v = "''alpine:latest''", THEN conjunct2,
        THEN conjunct2, THEN conjunct2, THEN conjunct2, THEN conjunct2, THEN conjunct2,
        THEN conjunct2, THEN conjunct2, THEN conjunct2, THEN mp, OF n]
    by simp
  have tok: "expand_env_vars ex_env_vars (''$'' @ n) = v"
    if "ex_env_vars n = Some v \<and> n \<noteq> [] \<and> list_all is_name_char n" for n v
    using T[where n = n and v = v, THEN conjunct2, THEN conjunct2, THEN conjunct2,
        THEN conjunct2, THEN conjunct2, THEN conjunct2, THEN conjunct2, THEN conjunct1,
        THEN mp, OF that] .
  have u: "expand_env_vars ex_env_vars (''$'' @ ''REPO_USERNAME'') = ''my-username''"
    by (rule tok) (simp add: ex_env_vars_def is_name_char_def)
  have p: "expand_env_vars ex_env_vars (''$'' @ ''REPO_PASSWORD'') = ''my-password''"
    by (rule tok) (simp add: ex_env_vars_def is_name_char_def)
  have e: "expand_env_vars ex_env_vars (''$'' @ ''REPO_EMAIL'') = ''my-email''"
    by (rule tok) (simp add: ex_env_vars_def is_name_char_def)
  have k: "expand_env_vars ex_env_vars (''$'' @ ''AWS_ACCESS_KEY_ID'') = ''access-key-id''"
    by (rule tok) (simp add: ex_env_vars_def is_name_char_def)
  have s: "expand_env_vars ex_env_vars (''$'' @ ''AWS_SECRET_ACCESS_KEY'')
      = ''secret-access-key''"
    by (rule tok) (simp add: ex_env_vars_def is_name_char_def)
  have un: "username (expand_image ex_env_vars ex_image_spec) = Some ''my-username''"
    using T[THEN conjunct2, THEN conjunct1] u by (simp add: ex_image_spec_def)
  have pw: "password (expand_image ex_env_vars ex_image_spec) = Some ''my-password''"
    using T[THEN conjunct2, THEN conjunct2, THEN conjunct1] p by (simp add: ex_image_spec_def)
  have em: "email (expand_image ex_env_vars ex_image_spec) = Some ''my-email''"
    using T[THEN conjunct2, THEN conjunct2, THEN conjunct2, THEN conjunct1] e
    by (simp add: ex_image_spec_def)
  have ak: "map_option access_key_id (aws (expand_image ex_env_vars ex_image_spec))
       = Some ''access-key-id''"
    using T[THEN conjunct2, THEN conjunct2, THEN conjunct2, THEN conjunct2, THEN conjunct1] k
    by (simp add: ex_image_spec_def)
  have sk: "map_option secret_access_key (aws (expand_image ex_env_vars ex_image_spec))
       = Some ''secret-access-key''"
    using T[THEN conjunct2, THEN conjunct2, THEN conjunct2, THEN conjunct2, THEN conjunct2,
        THEN conjunct1] s
    by (simp add: ex_image_spec_def)
  show ?thesis
    using v nm un pw em ak sk by (intro conjI)
qed

end
